theory Spec2Isabelle
  imports Complex_Main "HOL-Library.Word" "HOL-Library.Stream"
begin

section \<open>Strings and values\<close>

text \<open>
  A JavaScript string is a sequence of 16-bit code units, and \<open>length\<close> counts them.
  ASCII literals of the source are written \<open>js ''...''\<close>.
\<close>

type_synonym jschar = "16 word"
type_synonym jsstring = "jschar list"

definition js :: "string \<Rightarrow> jsstring" where
  "js s = map (\<lambda>c. of_nat (of_char c)) s"

text \<open>
  \<open>Array.from(str)\<close> and \<open>for (const char of str)\<close> walk a string by code point: a high
  surrogate followed by a low surrogate is one element of two code units, every other
  code unit is an element of its own.
\<close>

definition isHighSurrogate :: "jschar \<Rightarrow> bool" where
  "isHighSurrogate c = (0xD800 \<le> c \<and> c \<le> 0xDBFF)"

definition isLowSurrogate :: "jschar \<Rightarrow> bool" where
  "isLowSurrogate c = (0xDC00 \<le> c \<and> c \<le> 0xDFFF)"

fun arrayFrom :: "jsstring \<Rightarrow> jsstring list" where
  "arrayFrom [] = []"
| "arrayFrom [c] = [[c]]"
| "arrayFrom (c # d # s) =
     (if isHighSurrogate c \<and> isLowSurrogate d then [c, d] # arrayFrom s
      else [c] # arrayFrom (d # s))"

text \<open>
  A value that may be \<open>undefined\<close> (or \<open>null\<close>) is an option. \<open>toStr\<close> is the conversion
  of a template literal or of \<open>+\<close> with a string, for a value that is a string or
  \<open>undefined\<close>; \<open>falsy\<close> is \<open>!v\<close> for a string, \<open>null\<close> or \<open>undefined\<close>.
\<close>

definition toStr :: "jsstring option \<Rightarrow> jsstring" where
  "toStr v = (case v of None \<Rightarrow> js ''undefined'' | Some s \<Rightarrow> s)"

definition falsy :: "jsstring option \<Rightarrow> bool" where
  "falsy v = (case v of None \<Rightarrow> True | Some s \<Rightarrow> s = [])"

text \<open>\<open>String.prototype.trim\<close>: the WhiteSpace and LineTerminator code units.\<close>

definition isWhiteSpace :: "jschar \<Rightarrow> bool" where
  "isWhiteSpace c =
     (c = 0x09 \<or> c = 0x0A \<or> c = 0x0B \<or> c = 0x0C \<or> c = 0x0D \<or> c = 0x20 \<or> c = 0xA0 \<or>
      c = 0x1680 \<or> (0x2000 \<le> c \<and> c \<le> 0x200A) \<or> c = 0x2028 \<or> c = 0x2029 \<or>
      c = 0x202F \<or> c = 0x205F \<or> c = 0x3000 \<or> c = 0xFEFF)"

definition trim :: "jsstring \<Rightarrow> jsstring" where
  "trim s = rev (dropWhile isWhiteSpace (rev (dropWhile isWhiteSpace s)))"

text \<open>\<open>str.split(sep)\<close> for a separator of one code unit.\<close>

fun split :: "jschar \<Rightarrow> jsstring \<Rightarrow> jsstring list" where
  "split sep [] = [[]]"
| "split sep (c # s) =
     (if c = sep then [] # split sep s
      else (case split sep s of [] \<Rightarrow> [[c]] | p # ps \<Rightarrow> (c # p) # ps))"

text \<open>\<open>str.slice(1, -1)\<close>: the string without its first and its last code unit.\<close>

definition slice_1_m1 :: "jsstring \<Rightarrow> jsstring" where
  "slice_1_m1 s = butlast (tl s)"

text \<open>
  \<open>GetSubstitution\<close> of \<open>String.prototype.replace\<close> for a match without capture groups:
  in the replacement text \<open>$$\<close> is a dollar sign, \<open>$&\<close> the matched text, \<open>$`\<close> the text
  before the match and \<open>$'\<close> the text after it (0x24 is \<open>$\<close>, 0x26 \<open>&\<close>, 0x60 the
  backquote, 0x27 the quote); a dollar sign followed by anything else stands for itself.
\<close>

fun getSubstitution :: "jsstring \<Rightarrow> jsstring \<Rightarrow> jsstring \<Rightarrow> jsstring \<Rightarrow> jsstring" where
  "getSubstitution matched left right [] = []"
| "getSubstitution matched left right [c] = [c]"
| "getSubstitution matched left right (c # d # r) =
     (if c = 0x24 \<and> d = 0x24 then 0x24 # getSubstitution matched left right r
      else if c = 0x24 \<and> d = 0x26 then matched @ getSubstitution matched left right r
      else if c = 0x24 \<and> d = 0x60 then left @ getSubstitution matched left right r
      else if c = 0x24 \<and> d = 0x27 then right @ getSubstitution matched left right r
      else c # getSubstitution matched left right (d # r))"

text \<open>
  \<open>str.replace(ch, replacement)\<close> with a string pattern of one code unit: only the first
  occurrence is replaced. \<open>left\<close> holds the code units already passed, last first.
\<close>

fun replaceFirst :: "jschar \<Rightarrow> jsstring \<Rightarrow> jsstring \<Rightarrow> jsstring \<Rightarrow> jsstring" where
  "replaceFirst ch replacement left [] = rev left"
| "replaceFirst ch replacement left (c # s) =
     (if c = ch then rev left @ getSubstitution [ch] (rev left) s replacement @ s
      else replaceFirst ch replacement (c # left) s)"

section \<open>Errors\<close>

text \<open>
  The one exception that leaves the core uncaught is the \<open>RangeError\<close> of
  \<open>String.fromCodePoint\<close>. The \<open>SyntaxError\<close> of \<open>new RegExp\<close> is caught where it is
  raised and is the \<open>None\<close> of the constructor below.
\<close>

datatype js_error = RangeError

definition fromCodePoint :: "int \<Rightarrow> js_error + jsstring" where
  "fromCodePoint n =
     (if n < 0 \<or> 0x10FFFF < n then Inl RangeError
      else if n < 0x10000 then Inr [word_of_int n]
      else Inr [word_of_int (0xD800 + (n - 0x10000) div 0x400),
                word_of_int (0xDC00 + (n - 0x10000) mod 0x400)])"

section \<open>The random source\<close>

text \<open>
  \<open>Math.random()\<close> returns a number \<open>r\<close> with \<open>0 \<le> r < 1\<close>. The core draws from it in
  program order, so the random source is the stream of the numbers it will return:
  a call reads the head and leaves the tail. Numbers are reals; the rounding of the
  floating-point product in \<open>Math.floor(Math.random() * n)\<close> is not modelled.
\<close>

typedef unit_draw = "{r::real. 0 \<le> r \<and> r < 1}"
  by (rule exI [of _ 0]) simp

setup_lifting type_definition_unit_draw

text \<open>The number that a draw stands for.\<close>

lift_definition random :: "unit_draw \<Rightarrow> real" is "\<lambda>r. r" .

text \<open>The draw \<open>k / n\<close>, for \<open>k < n\<close> (and 0 otherwise): a way to write a concrete draw.\<close>

lift_definition draw :: "nat \<Rightarrow> nat \<Rightarrow> unit_draw"
  is "\<lambda>k n. if k < n then real k / real n else 0"
  by simp

type_synonym rng = "unit_draw stream"

text \<open>\<open>Math.floor(Math.random() * n)\<close>\<close>

definition randomIndex :: "unit_draw \<Rightarrow> nat \<Rightarrow> nat" where
  "randomIndex r n = nat \<lfloor>random r * real n\<rfloor>"

section \<open>Phonology\<close>

subsection \<open>Romanization\<close>

text \<open>
  \<open>Phonology.ipaToRomanMap\<close>, in the order of the source. The non-ASCII keys are
  U+0283, U+02A7, U+02A4, U+014B, U+03B8, U+00F0, the superscripts one to three of
  Latin-1 (U+00B9, U+00B2, U+00B3) and the superscripts four to nine (U+2074 to U+2079).
\<close>

definition ipaToRomanMap :: "(jsstring \<times> jsstring) list" where
  "ipaToRomanMap =
    [(js ''p'', js ''p''), (js ''t'', js ''t''), (js ''k'', js ''k''), (js ''b'', js ''b''),
     (js ''d'', js ''d''), (js ''g'', js ''g''), (js ''m'', js ''m''), (js ''n'', js ''n''),
     (js ''s'', js ''s''), (js ''z'', js ''z''), (js ''h'', js ''h''), (js ''r'', js ''r''),
     (js ''j'', js ''y''), (js ''w'', js ''w''), (js ''a'', js ''a''), (js ''i'', js ''i''),
     (js ''u'', js ''u''), (js ''e'', js ''e''), (js ''o'', js ''o''),
     ([0x283], js ''sh''), ([0x2A7], js ''ch''), ([0x2A4], js ''j''), ([0x14B], js ''ng''),
     ([0x3B8], js ''th''), ([0xF0], js ''dh''),
     ([0xB9], [0xB9]), ([0xB2], [0xB2]), ([0xB3], [0xB3]), ([0x2074], [0x2074]),
     ([0x2075], [0x2075]), ([0x2076], [0x2076]), ([0x2077], [0x2077]),
     ([0x2078], [0x2078]), ([0x2079], [0x2079])]"

text \<open>
  \<open>this.ipaToRomanMap[char] || char\<close>: every value of the table is a non-empty string,
  hence truthy, and no property inherited from \<open>Object.prototype\<close> has a name of one
  code point, so the right operand is taken exactly when the key is absent.
\<close>

definition romanizeChar :: "jsstring \<Rightarrow> jsstring" where
  "romanizeChar ch = (case map_of ipaToRomanMap ch of Some r \<Rightarrow> r | None \<Rightarrow> ch)"

definition romanize :: "jsstring \<Rightarrow> jsstring" where
  "romanize ipaStr = concat (map romanizeChar (arrayFrom ipaStr))"

subsection \<open>Regular expressions\<close>

text \<open>
  \<open>applyPhonologicalRules\<close> hands a pattern text to the built-in \<open>new RegExp(_, "g")\<close>
  and the result to the built-in \<open>String.prototype.replace\<close>. The built-in is a
  parameter of the model: a constructor that, given the pattern text, either raises
  \<open>SyntaxError\<close> (\<open>None\<close>) or returns a global regular expression, which is given by
  what \<open>subject.replace(regex, replacement)\<close> returns.
\<close>

type_synonym regexp = "jsstring \<Rightarrow> jsstring \<Rightarrow> jsstring"
type_synonym regexp_constructor = "jsstring \<Rightarrow> regexp option"

text \<open>
  For the runs on concrete inputs below, \<open>RegExp\<close> is the built-in on the patterns that
  the rule translation itself produces from plain sounds: a sequence of literal code
  units, character classes \<open>[...]\<close> of literal code units, and the assertions
  \<open>(?<=...)\<close> and \<open>(?=...)\<close> around such a sequence. On these it fails where the built-in
  raises (an unclosed class or group). Patterns with any other syntax character
  (quantifiers, alternation, escapes, anchors, capture groups, ranges and negation in a
  class) are outside this fragment: \<open>RegExp\<close> gives \<open>None\<close> for them, and nothing
  below runs it on one. The tests \<open>length s' < length s\<close> in the parser always
  succeed; they are there for the termination of the recursion.
\<close>

datatype atom = Lit jschar | Class "jschar list"

datatype item = Atom atom | Lookbehind "atom list" | Lookahead "atom list"

text \<open>The syntax characters \<open>\ ^ $ . * + ? ( ) [ ] { } |\<close> and, in a class, \<open>-\<close>.\<close>

definition syntaxChars :: "jschar list" where
  "syntaxChars = [0x5C, 0x5E, 0x24, 0x2E, 0x2A, 0x2B, 0x3F, 0x28, 0x29, 0x5B, 0x5D,
                  0x7B, 0x7D, 0x7C]"

fun parseClass :: "jschar list \<Rightarrow> jsstring \<Rightarrow> (atom \<times> jsstring) option" where
  "parseClass acc [] = None"
| "parseClass acc (c # s) =
     (if c = 0x5D then Some (Class (rev acc), s)
      else if c \<in> set syntaxChars \<or> c = 0x2D then None
      else parseClass (c # acc) s)"

fun parseAtoms :: "atom list \<Rightarrow> jsstring \<Rightarrow> (atom list \<times> jsstring) option" where
  "parseAtoms acc [] = None"
| "parseAtoms acc (c # s) =
     (if c = 0x29 then Some (rev acc, s)
      else if c = 0x5B then
        (case parseClass [] s of None \<Rightarrow> None
         | Some (a, s') \<Rightarrow> if length s' < length s then parseAtoms (a # acc) s' else None)
      else if c \<in> set syntaxChars then None
      else parseAtoms (Lit c # acc) s)"

function parseItems :: "item list \<Rightarrow> jsstring \<Rightarrow> item list option" where
  "parseItems acc [] = Some (rev acc)"
| "parseItems acc (c # s) =
     (if c = 0x28 then
        (if take 3 s = [0x3F, 0x3C, 0x3D] then
           (case parseAtoms [] (drop 3 s) of None \<Rightarrow> None
            | Some (as, s') \<Rightarrow>
                if length s' < length s then parseItems (Lookbehind as # acc) s' else None)
         else if take 2 s = [0x3F, 0x3D] then
           (case parseAtoms [] (drop 2 s) of None \<Rightarrow> None
            | Some (as, s') \<Rightarrow>
                if length s' < length s then parseItems (Lookahead as # acc) s' else None)
         else None)
      else if c = 0x5B then
        (case parseClass [] s of None \<Rightarrow> None
         | Some (a, s') \<Rightarrow>
             if length s' < length s then parseItems (Atom a # acc) s' else None)
      else if c \<in> set syntaxChars then None
      else parseItems (Atom (Lit c) # acc) s)"
  by pat_completeness auto
termination
  by (relation "measure (\<lambda>(acc, s). length s)") auto

fun matchAtom :: "atom \<Rightarrow> jschar \<Rightarrow> bool" where
  "matchAtom (Lit c) x = (x = c)"
| "matchAtom (Class cs) x = (x \<in> set cs)"

text \<open>Do the atoms match the first code units of the text, one each?\<close>

fun matchAtoms :: "atom list \<Rightarrow> jsstring \<Rightarrow> bool" where
  "matchAtoms [] s = True"
| "matchAtoms (a # as) [] = False"
| "matchAtoms (a # as) (x # s) = (matchAtom a x \<and> matchAtoms as s)"

text \<open>
  A match at one position: \<open>left\<close> is the text to the left of the position, last
  code unit first, \<open>s\<close> the text from the position on. The result is the number of code
  units matched.
\<close>

fun matchItems :: "item list \<Rightarrow> jsstring \<Rightarrow> jsstring \<Rightarrow> nat option" where
  "matchItems [] left s = Some 0"
| "matchItems (Atom a # items) left [] = None"
| "matchItems (Atom a # items) left (x # s) =
     (if matchAtom a x then map_option Suc (matchItems items (x # left) s) else None)"
| "matchItems (Lookbehind as # items) left s =
     (if matchAtoms (rev as) left then matchItems items left s else None)"
| "matchItems (Lookahead as # items) left s =
     (if matchAtoms as s then matchItems items left s else None)"

text \<open>
  \<open>subject.replace(regex, replacement)\<close> for a global regular expression: matches are
  sought from left to right, each from the end of the one before, and after an empty
  match the search moves on by one code unit.
\<close>

fun replaceMatches :: "item list \<Rightarrow> jsstring \<Rightarrow> jsstring \<Rightarrow> jsstring \<Rightarrow> jsstring" where
  "replaceMatches items replacement left [] =
     (case matchItems items left [] of None \<Rightarrow> []
      | Some n \<Rightarrow> getSubstitution [] (rev left) [] replacement)"
| "replaceMatches items replacement left (x # s) =
     (case matchItems items left (x # s) of
        None \<Rightarrow> x # replaceMatches items replacement (x # left) s
      | Some n \<Rightarrow>
          getSubstitution (take n (x # s)) (rev left) (drop n (x # s)) replacement @
          (if n = 0 then x # replaceMatches items replacement (x # left) s
           else replaceMatches items replacement (rev (take (n - 1) s) @ x # left)
                  (drop (n - 1) s)))"

definition RegExp :: regexp_constructor where
  "RegExp pattern =
     (case parseItems [] pattern of None \<Rightarrow> None
      | Some items \<Rightarrow> Some (\<lambda>subject replacement. replaceMatches items replacement [] subject))"

subsection \<open>Phonological rules\<close>

text \<open>A rule \<open>{ from, to }\<close>; \<open>from\<close> is a keyword here, hence the prefix.\<close>

record rule =
  rule_from :: jsstring
  rule_to :: jsstring

text \<open>\<open>xs[i]\<close>, which is \<open>undefined\<close> out of range.\<close>

definition nthOpt :: "'a list \<Rightarrow> nat \<Rightarrow> 'a option" where
  "nthOpt xs i = (if i < length xs then Some (xs ! i) else None)"

text \<open>
  The character class \<open>`[${vowels.join("")}]`\<close> (0x5B and 0x5D are the brackets).
\<close>

definition vowelClass :: "jsstring list \<Rightarrow> jsstring" where
  "vowelClass vs = [0x5B] @ concat vs @ [0x5D]"

text \<open>
  The pattern text that a rule hands to \<open>new RegExp\<close>. 0x3E is \<open>>\<close>, 0x5F is \<open>_\<close>,
  0x56 is \<open>V\<close>. \<open>split\<close> returns at least one part, and two when the separator occurs,
  so \<open>match\<close>, \<open>before\<close> and \<open>after\<close> (here \<open>beforeCtx\<close> and \<open>afterCtx\<close>) are never \<open>undefined\<close>.
\<close>

definition rulePattern :: "jsstring list \<Rightarrow> rule \<Rightarrow> jsstring" where
  "rulePattern vs r =
     (let match = toStr (nthOpt (map trim (split 0x3E (rule_from r))) 0);
          context = rule_to r
      in if 0x5F \<in> set context then
           (let beforeCtx = toStr (nthOpt (split 0x5F context) 0);
                afterCtx = toStr (nthOpt (split 0x5F context) 1);
                regexBefore =
                  (if beforeCtx \<noteq> []
                   then js ''(?<='' @ replaceFirst 0x56 (vowelClass vs) [] beforeCtx @ js '')''
                   else []);
                regexAfter =
                  (if afterCtx \<noteq> []
                   then js ''(?='' @ replaceFirst 0x56 (vowelClass vs) [] afterCtx @ js '')''
                   else [])
            in regexBefore @ match @ regexAfter)
         else match)"

text \<open>
  The replacement of a rule: the second part of \<open>from\<close>, which is \<open>undefined\<close> when
  \<open>from\<close> has no \<open>>\<close>; \<open>replace\<close> then converts it to the string \<open>undefined\<close>.
\<close>

definition ruleReplacement :: "rule \<Rightarrow> jsstring" where
  "ruleReplacement r = toStr (nthOpt (map trim (split 0x3E (rule_from r))) 1)"

text \<open>
  The body of the \<open>forEach\<close> callback: \<open>try { ... newWord = newWord.replace(regex,
  replacement) } catch (e) { console.error(...) }\<close>. Only \<open>new RegExp\<close> can raise in the
  \<open>try\<close> block; the handler logs and leaves \<open>newWord\<close> as it was.
\<close>

definition applyRule :: "regexp_constructor \<Rightarrow> jsstring list \<Rightarrow> rule \<Rightarrow> jsstring \<Rightarrow> jsstring" where
  "applyRule newRegExp vs r newWord =
     (case newRegExp (rulePattern vs r) of
        None \<Rightarrow> newWord
      | Some regex \<Rightarrow> regex newWord (ruleReplacement r))"

fun applyRules :: "regexp_constructor \<Rightarrow> jsstring list \<Rightarrow> rule list \<Rightarrow> jsstring \<Rightarrow> jsstring" where
  "applyRules newRegExp vs [] newWord = newWord"
| "applyRules newRegExp vs (r # rs) newWord =
     applyRules newRegExp vs rs (applyRule newRegExp vs r newWord)"

subsection \<open>Word generation\<close>

record tones =
  enabled :: bool
  count :: int

record phonology =
  consonants :: "jsstring list"
  vowels :: "jsstring list"
  syllableStructures :: "jsstring list"
  phonologicalRules :: "rule list"
  tones :: tones

definition applyPhonologicalRules :: "regexp_constructor \<Rightarrow> phonology \<Rightarrow> jsstring \<Rightarrow> jsstring" where
  "applyPhonologicalRules newRegExp ph word =
     applyRules newRegExp (vowels ph) (phonologicalRules ph) word"

text \<open>
  The loop \<open>for (const char of structure)\<close> of \<open>generateWord\<close>, over the code points of
  the structure. It runs only after the guard has found both inventories non-empty,
  so the index drawn is in range.
\<close>

fun fillTemplate :: "jsstring list \<Rightarrow> jsstring list \<Rightarrow> jsstring list \<Rightarrow> jsstring \<Rightarrow> rng \<Rightarrow> jsstring \<times> rng" where
  "fillTemplate cs vs [] word g = (word, g)"
| "fillTemplate cs vs (ch # rest) word g =
     (if ch = js ''C'' then
        fillTemplate cs vs rest (word @ cs ! randomIndex (shd g) (length cs)) (stl g)
      else if ch = js ''V'' then
        fillTemplate cs vs rest (word @ vs ! randomIndex (shd g) (length vs)) (stl g)
      else fillTemplate cs vs rest word g)"

text \<open>
  Lines 99 to 110 of \<open>generateWord\<close>: the structure drawn and the word built from it,
  before the phonological rules and the tone.
\<close>

definition synthesizeWord :: "phonology \<Rightarrow> rng \<Rightarrow> jsstring \<times> jsstring \<times> rng" where
  "synthesizeWord ph g =
     (let structure =
            syllableStructures ph ! randomIndex (shd g) (length (syllableStructures ph));
          (word, g') = fillTemplate (consonants ph) (vowels ph) (arrayFrom structure) [] (stl g)
      in (structure, word, g'))"

text \<open>The tone drawn: \<open>Math.floor(Math.random() * tones.count) + 1\<close>.\<close>

definition drawTone :: "unit_draw \<Rightarrow> int \<Rightarrow> int" where
  "drawTone r n = \<lfloor>random r * of_int n\<rfloor> + 1"

text \<open>
  \<open>generateWord\<close> returns \<open>null\<close> (\<open>None\<close>) or a string, together with the random source
  it leaves, or raises.
\<close>

definition generateWord :: "regexp_constructor \<Rightarrow> phonology \<Rightarrow> rng \<Rightarrow> js_error + jsstring option \<times> rng" where
  "generateWord newRegExp ph g =
     (if consonants ph = [] \<or> vowels ph = [] \<or> syllableStructures ph = [] then Inr (None, g)
      else
        (case synthesizeWord ph g of
           (structure, word, g') \<Rightarrow>
             (let finalWord = applyPhonologicalRules newRegExp ph word
              in if enabled (tones ph) then
                   (case fromCodePoint (0x2070 + drawTone (shd g') (count (tones ph))) of
                      Inl e \<Rightarrow> Inl e
                    | Inr toneMarker \<Rightarrow> Inr (Some (finalWord @ toneMarker), stl g'))
                 else Inr (Some finalWord, g'))))"

subsection \<open>Loanword assimilation\<close>

definition sourceLoanwords :: "jsstring list" where
  "sourceLoanwords = map js
     [''computer'', ''internet'', ''phone'', ''radio'', ''television'', ''music'', ''art'',
      ''game'', ''food'', ''water'']"

text \<open>\<open>_findClosestSound\<close>; its first parameter is not used by the source either.\<close>

fun findClosestSound :: "jsstring \<Rightarrow> jsstring list \<Rightarrow> jsstring list \<Rightarrow> jsstring" where
  "findClosestSound sound [] inventory = (if 0 < length inventory then inventory ! 0 else [])"
| "findClosestSound sound (candidate # candidates) inventory =
     (if candidate \<in> set inventory then candidate
      else findClosestSound sound candidates inventory)"

text \<open>
  \<open>soundMap\<close>, built anew by each call of \<open>assimilate\<close>. U+02A4, U+0283 and U+014B
  are the three candidates outside ASCII.
\<close>

definition soundMap :: "jsstring list \<Rightarrow> jsstring list \<Rightarrow> (jsstring \<times> jsstring) list" where
  "soundMap cs vs =
    [(js ''p'', findClosestSound (js ''p'') [js ''p'', js ''b'', js ''f''] cs),
     (js ''b'', findClosestSound (js ''b'') [js ''b'', js ''p'', js ''v''] cs),
     (js ''t'', findClosestSound (js ''t'') [js ''t'', js ''d'', js ''s''] cs),
     (js ''d'', findClosestSound (js ''d'') [js ''d'', js ''t'', js ''z''] cs),
     (js ''k'', findClosestSound (js ''k'') [js ''k'', js ''g'', js ''h'', js ''x''] cs),
     (js ''c'', findClosestSound (js ''k'') [js ''k'', js ''g'', js ''s''] cs),
     (js ''g'', findClosestSound (js ''g'') [js ''g'', js ''k'', [0x2A4]] cs),
     (js ''f'', findClosestSound (js ''f'') [js ''f'', js ''p'', js ''v''] cs),
     (js ''v'', findClosestSound (js ''v'') [js ''v'', js ''b'', js ''f''] cs),
     (js ''s'', findClosestSound (js ''s'') [js ''s'', js ''z'', js ''t'', [0x283]] cs),
     (js ''z'', findClosestSound (js ''z'') [js ''z'', js ''s'', js ''d''] cs),
     (js ''m'', findClosestSound (js ''m'') [js ''m'', js ''n''] cs),
     (js ''n'', findClosestSound (js ''n'') [js ''n'', js ''m'', [0x14B]] cs),
     (js ''l'', findClosestSound (js ''l'') [js ''l'', js ''r'', js ''j''] cs),
     (js ''r'', findClosestSound (js ''r'') [js ''r'', js ''l'', js ''d''] cs),
     (js ''h'', findClosestSound (js ''h'') [js ''h''] cs),
     (js ''j'', findClosestSound [0x2A4] [[0x2A4], js ''g'', js ''z''] cs),
     (js ''y'', findClosestSound (js ''j'') [js ''j'', js ''i''] (cs @ vs)),
     (js ''w'', findClosestSound (js ''w'') [js ''w'', js ''u''] (cs @ vs)),
     (js ''q'', findClosestSound (js ''k'') [js ''k'', js ''g''] cs),
     (js ''x'', findClosestSound (js ''s'') [js ''s'', js ''z''] cs),
     (js ''a'', findClosestSound (js ''a'') [js ''a'', js ''e'', js ''o''] vs),
     (js ''e'', findClosestSound (js ''e'') [js ''e'', js ''i'', js ''a''] vs),
     (js ''i'', findClosestSound (js ''i'') [js ''i'', js ''e'', js ''u''] vs),
     (js ''o'', findClosestSound (js ''o'') [js ''o'', js ''u'', js ''a''] vs),
     (js ''u'', findClosestSound (js ''u'') [js ''u'', js ''o'', js ''i''] vs)]"

text \<open>
  \<open>toLowerCase\<close> on the letters A to Z. The case mapping of Unicode outside ASCII is
  not modelled; the only caller, \<open>assimilate\<close>, is itself called on the words of
  \<open>sourceLoanwords\<close> alone, which are ASCII.
\<close>

definition toLowerCase :: "jsstring \<Rightarrow> jsstring" where
  "toLowerCase s = map (\<lambda>c. if 0x41 \<le> c \<and> c \<le> 0x5A then c + 0x20 else c) s"

text \<open>\<open>soundMap[char] || ""\<close>: an absent key and an empty value both give \<open>""\<close>.\<close>

definition assimilate :: "phonology \<Rightarrow> jsstring \<Rightarrow> jsstring" where
  "assimilate ph word =
     (if consonants ph = [] \<or> vowels ph = [] then word
      else concat (map (\<lambda>ch. case map_of (soundMap (consonants ph) (vowels ph)) ch of
                                None \<Rightarrow> [] | Some sound \<Rightarrow> sound)
                       (arrayFrom (toLowerCase word))))"

section \<open>The language state\<close>

text \<open>
  A dictionary entry. \<open>meaning\<close> is \<open>undefined\<close> (\<open>None\<close>) only for the meaning taken
  from an empty list of semantic fields. \<open>gender\<close> is \<open>null\<close> or absent (both \<open>None\<close>:
  the core only tests it for truth and compares it with strings) or a string.
\<close>

record entry =
  ipa :: jsstring
  roman :: jsstring
  pos :: jsstring
  meaning :: "jsstring option"
  gender :: "jsstring option"

text \<open>A derivational morpheme \<open>{ type, form, func }\<close>.\<close>

record morpheme =
  morpheme_type :: jsstring
  form :: jsstring
  func :: jsstring

record lexicon =
  semanticFields :: "jsstring list"
  rootCount :: int
  loanwords_enabled :: bool

record morphoSyntax =
  wordOrder :: jsstring
  adjectiveOrder :: jsstring
  caseMarking :: jsstring
  irregularityRate :: real
  derivationalMorphemes :: "morpheme list"
  grammaticalGender :: jsstring
  genderAgreement :: bool

text \<open>
  The grammar table. \<open>tenses\<close> is an object; it is given by its entries in the order
  of \<open>Object.keys\<close>, whose keys are distinct.
\<close>

record grammar =
  subjectMarker :: jsstring
  objectMarker :: jsstring
  pluralMarker :: jsstring
  tenses :: "(jsstring \<times> jsstring) list"

record generated =
  dictionary :: "entry list"
  grammar :: grammar

record languageState =
  phonology :: phonology
  lexicon :: lexicon
  morphoSyntax :: morphoSyntax
  generated :: generated

text \<open>The grammar table of the initial \<open>languageState\<close>; nothing in the source changes it.\<close>

definition initialGrammar :: grammar where
  "initialGrammar =
     \<lparr>subjectMarker = js ''ga'', objectMarker = js ''wo'', pluralMarker = js ''t'',
      tenses = [(js ''past'', js ''ta''), (js ''present'', js ''ru''),
                (js ''future'', js ''lu'')]\<rparr>"

section \<open>Lexicon\<close>

text \<open>
  \<open>Lexicon.semanticFieldMap\<close>: the keys are the ten field names of the user interface,
  of two CJK characters each.
\<close>

definition semanticFieldMap :: "(jsstring \<times> jsstring) list" where
  "semanticFieldMap =
    [([0x81EA, 0x7136], js ''nature''),
     ([0x52D5, 0x7269], js ''animals''),
     ([0x611F, 0x60C5], js ''emotions''),
     ([0x884C, 0x52D5], js ''actions''),
     ([0x9053, 0x5177], js ''tools''),
     ([0x793E, 0x4F1A], js ''society''),
     ([0x601D, 0x8003], js ''concepts''),
     ([0x8EAB, 0x4F53], js ''body''),
     ([0x98DF, 0x7269], js ''food''),
     ([0x5834, 0x6240], js ''places'')]"

definition SemanticDictionary :: "(jsstring \<times> jsstring list) list" where
  "SemanticDictionary =
    [(js ''nature'', map js
       [''sun'', ''moon'', ''star'', ''sky'', ''earth'', ''sea'', ''river'',
        ''mountain'', ''tree'', ''flower'', ''rain'', ''wind'', ''snow'', ''fire'',
        ''water'', ''stone'', ''cloud'', ''forest'', ''desert'', ''island'',
        ''valley'', ''lightning'', ''sand'']),
     (js ''animals'', map js
       [''dog'', ''cat'', ''bird'', ''fish'', ''horse'', ''bear'', ''wolf'', ''lion'',
        ''tiger'', ''snake'', ''insect'', ''spider'', ''eagle'', ''mouse'', ''cow'',
        ''sheep'', ''monkey'', ''deer'', ''fox'', ''rabbit'', ''bee'', ''butterfly'']),
     (js ''emotions'', map js
       [''love'', ''hate'', ''joy'', ''sadness'', ''anger'', ''fear'', ''surprise'',
        ''hope'', ''pride'', ''shame'', ''calm'', ''anxiety'', ''courage'', ''desire'',
        ''trust'', ''pity'', ''envy'', ''gratitude'', ''guilt'', ''curiosity'']),
     (js ''actions'', map js
       [''go'', ''come'', ''eat'', ''drink'', ''sleep'', ''see'', ''hear'', ''speak'',
        ''run'', ''walk'', ''give'', ''take'', ''make'', ''do'', ''know'', ''think'',
        ''love'', ''work'', ''play'', ''sing'', ''die'', ''live'', ''fight'', ''read'',
        ''write'']),
     (js ''tools'', map js
       [''knife'', ''hammer'', ''axe'', ''rope'', ''wheel'', ''boat'', ''net'',
        ''needle'', ''sword'', ''shield'', ''bow'', ''arrow'', ''pen'', ''book'',
        ''cup'', ''pot'', ''key'', ''clock'', ''mirror'', ''lamp'', ''plow'', ''cart'',
        ''bridge'', ''road'']),
     (js ''society'', map js
       [''person'', ''man'', ''woman'', ''child'', ''family'', ''king'', ''queen'',
        ''law'', ''war'', ''peace'', ''city'', ''house'', ''village'', ''god'',
        ''money'', ''art'', ''music'', ''story'', ''name'', ''word'', ''language'',
        ''friend'', ''enemy'', ''chief'']),
     (js ''concepts'', map js
       [''time'', ''space'', ''life'', ''death'', ''good'', ''evil'', ''truth'',
        ''lie'', ''beauty'', ''power'', ''knowledge'', ''freedom'', ''justice'',
        ''luck'', ''dream'', ''soul'', ''mind'', ''idea'', ''change'', ''order'',
        ''chaos'', ''number'']),
     (js ''body'', map js
       [''head'', ''face'', ''eye'', ''ear'', ''nose'', ''mouth'', ''hand'', ''foot'',
        ''heart'', ''blood'', ''bone'', ''skin'', ''hair'', ''voice'', ''leg'',
        ''arm'', ''finger'', ''tooth'']),
     (js ''food'', map js
       [''bread'', ''meat'', ''fruit'', ''seed'', ''salt'', ''honey'', ''milk'',
        ''egg'', ''root'', ''leaf'', ''berry'', ''grain'', ''wine'', ''oil'',
        ''cheese'', ''herb'']),
     (js ''places'', map js
       [''home'', ''market'', ''temple'', ''field'', ''cave'', ''port'', ''castle'',
        ''tower'', ''wall'', ''gate'', ''tomb'', ''throne'', ''garden'', ''lake'',
        ''shore''])]"

subsection \<open>Meaning selection\<close>

text \<open>
  The body of the \<open>while\<close> loop up to \<open>fieldIndex++\<close>. \<open>fieldIndex % 0\<close> is \<open>NaN\<close> and
  \<open>semanticFields[NaN]\<close> is \<open>undefined\<close>. A field name that is a property inherited
  from \<open>Object.prototype\<close> gives a truthy \<open>fieldKey\<close> that is no key of
  \<open>SemanticDictionary\<close>, so it takes the \<open>else\<close> branch like an unknown name.
  \<open>usedMeanings\<close> is a \<open>Set\<close>; it is only added to and asked for membership.
\<close>

definition selectMeaning ::
  "jsstring list \<Rightarrow> nat \<Rightarrow> jsstring option list \<Rightarrow> jsstring option list \<Rightarrow> rng \<Rightarrow>
   jsstring option list \<times> jsstring option list \<times> rng" where
  "selectMeaning fieldNames fieldIndex meaningsToGenerate usedMeanings g =
     (let fieldName = (if fieldNames = [] then None
                       else nthOpt fieldNames (fieldIndex mod length fieldNames));
          fieldWords =
            (case fieldName of None \<Rightarrow> None
             | Some name \<Rightarrow>
                 (case map_of semanticFieldMap name of None \<Rightarrow> None
                  | Some fieldKey \<Rightarrow> map_of SemanticDictionary fieldKey))
      in case fieldWords of
           Some ws \<Rightarrow>
             (let availableWords = filter (\<lambda>w. Some w \<notin> set usedMeanings) ws
              in if 0 < length availableWords then
                   (let chosenMeaning =
                          availableWords ! randomIndex (shd g) (length availableWords)
                    in (meaningsToGenerate @ [Some chosenMeaning],
                        usedMeanings @ [Some chosenMeaning], stl g))
                 else (meaningsToGenerate, usedMeanings, g))
         | None \<Rightarrow>
             if fieldName \<notin> set usedMeanings
             then (meaningsToGenerate @ [fieldName], usedMeanings @ [fieldName], g)
             else (meaningsToGenerate, usedMeanings, g))"

function selectMeanings ::
  "lexicon \<Rightarrow> nat \<Rightarrow> jsstring option list \<Rightarrow> jsstring option list \<Rightarrow> rng \<Rightarrow>
   jsstring option list \<times> rng" where
  "selectMeanings lx fieldIndex meaningsToGenerate usedMeanings g =
     (if int (length meaningsToGenerate) < rootCount lx then
        (case selectMeaning (semanticFields lx) fieldIndex meaningsToGenerate usedMeanings g of
           (meanings', used', g') \<Rightarrow>
             if rootCount lx * 2 < int (fieldIndex + 1) \<and> int (length meanings') < rootCount lx
             then (meanings', g')
             else selectMeanings lx (fieldIndex + 1) meanings' used' g')
      else (meaningsToGenerate, g))"
  by pat_completeness auto
termination
  by (relation "measure (\<lambda>(lx, fieldIndex, meaningsToGenerate, usedMeanings, g).
        if int (length meaningsToGenerate) < rootCount lx
        then nat (rootCount lx * 2 + 1 - int fieldIndex) + 1 else 0)")
     (auto split: prod.splits)

subsection \<open>Base entries\<close>

text \<open>
  The \<open>do ... while\<close> loop that draws a form for one meaning. \<open>None\<close> is the exit by
  \<open>break\<close>, on a word that is \<open>null\<close> or empty; the entry is then skipped whatever
  \<open>roman\<close> holds. Otherwise the loop leaves the last word and its romanization.
\<close>

function drawForm ::
  "regexp_constructor \<Rightarrow> phonology \<Rightarrow> jsstring list \<Rightarrow> nat \<Rightarrow> rng \<Rightarrow>
   js_error + (jsstring \<times> jsstring) option \<times> rng" where
  "drawForm newRegExp ph generatedRomans attempts g =
     (case generateWord newRegExp ph g of
        Inl e \<Rightarrow> Inl e
      | Inr (w, g') \<Rightarrow>
          if falsy w then Inr (None, g')
          else if romanize (toStr w) \<in> set generatedRomans \<and> attempts + 1 < 10
          then drawForm newRegExp ph generatedRomans (attempts + 1) g'
          else Inr (Some (toStr w, romanize (toStr w)), g'))"
  by pat_completeness auto
termination
  by (relation "measure (\<lambda>(newRegExp, ph, generatedRomans, attempts, g). 10 - attempts)") auto

definition posList :: "jsstring list" where
  "posList = map js [''noun'', ''verb'', ''adjective'']"

definition genderList :: "jsstring \<Rightarrow> jsstring list" where
  "genderList mode =
     (if mode = js ''mf'' then map js [''masculine'', ''feminine'']
      else map js [''masculine'', ''feminine'', ''neuter''])"

text \<open>
  The part of speech and the gender of a new base entry: one draw, and a second one
  for a noun when grammatical gender is not \<open>none\<close>.
\<close>

definition drawPosGender :: "morphoSyntax \<Rightarrow> rng \<Rightarrow> jsstring \<times> jsstring option \<times> rng" where
  "drawPosGender ms g =
     (let wordPos = posList ! randomIndex (shd g) (length posList)
      in if wordPos = js ''noun'' \<and> grammaticalGender ms \<noteq> js ''none'' then
           (let genders = genderList (grammaticalGender ms)
            in (wordPos, Some (genders ! randomIndex (shd (stl g)) (length genders)),
                stl (stl g)))
         else (wordPos, None, stl g))"

text \<open>The loop \<open>for (const meaning of meaningsToGenerate)\<close>.\<close>

fun generateBase ::
  "regexp_constructor \<Rightarrow> languageState \<Rightarrow> jsstring option list \<Rightarrow> jsstring list \<Rightarrow>
   entry list \<Rightarrow> rng \<Rightarrow> js_error + entry list \<times> rng" where
  "generateBase newRegExp st [] generatedRomans newDictionary g = Inr (newDictionary, g)"
| "generateBase newRegExp st (m # meanings) generatedRomans newDictionary g =
     (case drawForm newRegExp (phonology st) generatedRomans 0 g of
        Inl e \<Rightarrow> Inl e
      | Inr (None, g') \<Rightarrow> generateBase newRegExp st meanings generatedRomans newDictionary g'
      | Inr (Some (ipaW, romanW), g') \<Rightarrow>
          if romanW \<in> set generatedRomans
          then generateBase newRegExp st meanings generatedRomans newDictionary g'
          else
            (case drawPosGender (morphoSyntax st) g' of
               (wordPos, wordGender, g'') \<Rightarrow>
                 generateBase newRegExp st meanings (generatedRomans @ [romanW])
                   (newDictionary @
                      [\<lparr>ipa = js ''/'' @ ipaW @ js ''/'', roman = romanW, pos = wordPos,
                        meaning = m, gender = wordGender\<rparr>])
                   g''))"

subsection \<open>Derivation\<close>

text \<open>\<open>MorphoSyntax.applyDerivation\<close>; the entry it returns has no \<open>gender\<close>.\<close>

definition applyDerivation :: "entry \<Rightarrow> morpheme \<Rightarrow> entry" where
  "applyDerivation word mo =
     (let baseIpa = slice_1_m1 (ipa word);
          (newIpa, newRoman) =
            (if morpheme_type mo = js ''prefix''
             then (form mo @ baseIpa, romanize (form mo) @ roman word)
             else (baseIpa @ form mo, roman word @ romanize (form mo)))
      in \<lparr>ipa = js ''/'' @ newIpa @ js ''/'', roman = newRoman, pos = func mo,
          meaning = Some (toStr (meaning word) @ js '' ('' @ func mo @ js '')''),
          gender = None\<rparr>)"

text \<open>
  \<open>Array.from(baseIpa).map((c, i) => (vowels.includes(c) ? i : -1)).filter((i) => i
  !== -1).pop()\<close>: the last index of a vowel, \<open>undefined\<close> when there is none.
\<close>

definition lastVowelIndex :: "jsstring list \<Rightarrow> jsstring list \<Rightarrow> nat option" where
  "lastVowelIndex vs chars =
     (case rev (filter (\<lambda>i. chars ! i \<in> set vs) [0..<length chars]) of
        [] \<Rightarrow> None | i # _ \<Rightarrow> Some i)"

text \<open>
  The body of the inner \<open>forEach\<close>: what one morpheme adds to \<open>derivedWords\<close> for one
  word (nothing or one entry).
\<close>

definition deriveWord :: "languageState \<Rightarrow> morpheme \<Rightarrow> entry \<Rightarrow> rng \<Rightarrow> entry list \<times> rng" where
  "deriveWord st mo word g =
     (if random (shd g) < 0.5 then
        (if random (shd (stl g)) < irregularityRate (morphoSyntax st) then
           (let vs = vowels (phonology st)
            in if 0 < length vs then
                 (let baseIpa = slice_1_m1 (ipa word);
                      randomVowel = vs ! randomIndex (shd (stl (stl g))) (length vs)
                  in case lastVowelIndex vs (arrayFrom baseIpa) of
                       Some i \<Rightarrow>
                         (let newIpa = concat ((arrayFrom baseIpa)[i := randomVowel])
                          in ([\<lparr>ipa = js ''/'' @ newIpa @ js ''/'', roman = romanize newIpa,
                                pos = func mo,
                                meaning = Some (toStr (meaning word) @ js '' (irregular '' @
                                                func mo @ js '')''),
                                gender = gender word\<rparr>],
                              stl (stl (stl g))))
                     | None \<Rightarrow> ([], stl (stl (stl g))))
               else ([], stl (stl g)))
         else ([applyDerivation word mo], stl (stl g)))
      else ([], stl g))"

fun deriveWords :: "languageState \<Rightarrow> morpheme \<Rightarrow> entry list \<Rightarrow> entry list \<Rightarrow> rng \<Rightarrow> entry list \<times> rng" where
  "deriveWords st mo [] derivedWords g = (derivedWords, g)"
| "deriveWords st mo (word # ws) derivedWords g =
     (case deriveWord st mo word g of
        (new, g') \<Rightarrow> deriveWords st mo ws (derivedWords @ new) g')"

fun deriveAll :: "languageState \<Rightarrow> morpheme list \<Rightarrow> entry list \<Rightarrow> entry list \<Rightarrow> rng \<Rightarrow> entry list \<times> rng" where
  "deriveAll st [] newDictionary derivedWords g = (derivedWords, g)"
| "deriveAll st (mo # mos) newDictionary derivedWords g =
     (case deriveWords st mo newDictionary derivedWords g of
        (derivedWords', g') \<Rightarrow> deriveAll st mos newDictionary derivedWords' g')"

subsection \<open>Loanwords\<close>

text \<open>\<open>Math.max(1, Math.floor(rootCount * 0.05))\<close>\<close>

definition loanwordCount :: "int \<Rightarrow> int" where
  "loanwordCount n = max 1 \<lfloor>real_of_int n * 0.05\<rfloor>"

text \<open>The loop \<open>for (let i = 0; i < loanwordCount; i++)\<close>, by the number of rounds left.\<close>

fun addLoanwords :: "phonology \<Rightarrow> nat \<Rightarrow> entry list \<Rightarrow> rng \<Rightarrow> entry list \<times> rng" where
  "addLoanwords ph 0 dict g = (dict, g)"
| "addLoanwords ph (Suc n) dict g =
     (let sourceWord = sourceLoanwords ! randomIndex (shd g) (length sourceLoanwords);
          assimilatedIpa = assimilate ph sourceWord;
          assimilatedRoman = romanize assimilatedIpa
      in addLoanwords ph n
           (if assimilatedRoman \<noteq> [] \<and> assimilatedRoman \<notin> set (map roman dict)
            then dict @ [\<lparr>ipa = js ''/'' @ assimilatedIpa @ js ''/'', roman = assimilatedRoman,
                          pos = js ''noun'',
                          meaning = Some (sourceWord @ js '' (loanword)''), gender = None\<rparr>]
            else dict)
           (stl g))"

subsection \<open>Lexicon.generate\<close>

text \<open>
  The result is the dictionary that \<open>generate\<close> leaves in
  \<open>languageState.generated.dictionary\<close>, with the random source it leaves. When
  \<open>generateWord\<close> raises, \<open>generate\<close> raises before the dictionary is assigned.
\<close>

definition generate :: "regexp_constructor \<Rightarrow> languageState \<Rightarrow> rng \<Rightarrow> js_error + entry list \<times> rng" where
  "generate newRegExp st g =
     (case selectMeanings (lexicon st) 0 [] [] g of
        (meaningsToGenerate, g1) \<Rightarrow>
          (case generateBase newRegExp st meaningsToGenerate [] [] g1 of
             Inl e \<Rightarrow> Inl e
           | Inr (newDictionary, g2) \<Rightarrow>
               (case deriveAll st (derivationalMorphemes (morphoSyntax st)) newDictionary [] g2 of
                  (derivedWords, g3) \<Rightarrow>
                    if loanwords_enabled (lexicon st) then
                      Inr (addLoanwords (phonology st)
                             (nat (loanwordCount (rootCount (lexicon st))))
                             (newDictionary @ derivedWords) g3)
                    else Inr (newDictionary @ derivedWords, g3))))"

section \<open>Sentences\<close>

text \<open>
  The string returned when the dictionary has fewer than two nouns or no verb:
  the fourteen characters of line 396, U+8F9E U+66F8 U+306B U+5358 U+8A9E U+304C U+4E0D
  U+8DB3 U+3057 U+3066 U+3044 U+307E U+3059 U+3002.
\<close>

definition insufficientVocabulary :: jsstring where
  "insufficientVocabulary =
     [0x8F9E, 0x66F8, 0x306B, 0x5358, 0x8A9E, 0x304C, 0x4E0D, 0x8DB3, 0x3057, 0x3066,
      0x3044, 0x307E, 0x3059, 0x3002]"

text \<open>
  The loop \<open>while (object.roman === subject.roman) { object = { ...nouns[...] } }\<close>.
  Nothing bounds the number of its rounds, so the result is an option: \<open>None\<close> is a
  run that never leaves the loop.
\<close>

partial_function (option) redrawObject ::
  "entry list \<Rightarrow> entry \<Rightarrow> entry \<Rightarrow> rng \<Rightarrow> (entry \<times> rng) option" where
  "redrawObject nouns subject object g =
     (if roman object = roman subject
      then redrawObject nouns subject (nouns ! randomIndex (shd g) (length nouns)) (stl g)
      else Some (object, g))"

text \<open>
  The adjective in the form it takes beside the subject:
  \<open>genderAgreement && grammaticalGender !== "none" && subject.gender\<close> and the suffix
  chosen by the gender.
\<close>

definition adjectiveForm :: "morphoSyntax \<Rightarrow> entry \<Rightarrow> entry \<Rightarrow> jsstring" where
  "adjectiveForm ms subject adjective =
     (if genderAgreement ms \<and> grammaticalGender ms \<noteq> js ''none'' \<and> \<not> falsy (gender subject)
      then
        (let suffix =
               (if gender subject = Some (js ''masculine'') then js ''o''
                else if gender subject = Some (js ''feminine'') then js ''a''
                else if gender subject = Some (js ''neuter'') then js ''e''
                else [])
         in if suffix \<noteq> [] then roman adjective @ js ''-'' @ suffix else roman adjective)
      else roman adjective)"

text \<open>
  Lines 405 to 426: the subject phrase and the subject of the gloss. The second draw
  is made only when there is an adjective (\<open>&&\<close> evaluates its right operand only
  then), the third only when the second is above one half.
\<close>

definition subjectPhrase ::
  "morphoSyntax \<Rightarrow> entry list \<Rightarrow> entry \<Rightarrow> rng \<Rightarrow> jsstring \<times> jsstring \<times> rng" where
  "subjectPhrase ms adjectives subject g =
     (if 0 < length adjectives then
        (if 0.5 < random (shd g) then
           (let adjective =
                  adjectives ! randomIndex (shd (stl g)) (length adjectives);
                form' = adjectiveForm ms subject adjective
            in ((if adjectiveOrder ms = js ''AN'' then form' @ js '' '' @ roman subject
                 else roman subject @ js '' '' @ form'),
                toStr (meaning adjective) @ js '' '' @ toStr (meaning subject),
                stl (stl g)))
         else (roman subject, toStr (meaning subject), stl g))
      else (roman subject, toStr (meaning subject), g))"

text \<open>The \<open>switch (caseMarking)\<close>, for one phrase and its marker.\<close>

definition markCase :: "jsstring \<Rightarrow> jsstring \<Rightarrow> jsstring \<Rightarrow> jsstring" where
  "markCase marking marker phrase =
     (if marking = js ''suffix'' then phrase @ js ''-'' @ marker
      else if marking = js ''prefix'' then marker @ js ''-'' @ phrase
      else if marking = js ''postposition'' then phrase @ js '' '' @ marker
      else phrase)"

text \<open>\<open>parts.join(" ")\<close>\<close>

fun joinSpace :: "jsstring list \<Rightarrow> jsstring" where
  "joinSpace [] = []"
| "joinSpace [p] = p"
| "joinSpace (p # q # ps) = p @ js '' '' @ joinSpace (q # ps)"

text \<open>
  \<open>wordOrder.split("").map((c) => components[c]).join(" ")\<close>: \<open>split("")\<close> gives the
  code units, a code unit other than \<open>S\<close>, \<open>O\<close>, \<open>V\<close> gives \<open>undefined\<close>, which \<open>join\<close>
  writes as the empty string.
\<close>

definition orderSentence :: "jsstring \<Rightarrow> jsstring \<Rightarrow> jsstring \<Rightarrow> jsstring \<Rightarrow> jsstring" where
  "orderSentence order s_final o_final v_final =
     joinSpace (map (\<lambda>c. if c = 0x53 then s_final else if c = 0x4F then o_final
                          else if c = 0x56 then v_final else []) order)"

text \<open>
  Lines 403 to 455, after subject and object are chosen. With an empty \<open>tenses\<close>
  the key drawn and its marker are \<open>undefined\<close>. The result is the sentence proper
  (\<open>orderedSentence\<close> and the period), the gloss that follows it, and the random source.
\<close>

definition composeSentence ::
  "languageState \<Rightarrow> entry list \<Rightarrow> entry list \<Rightarrow> entry \<Rightarrow> entry \<Rightarrow> rng \<Rightarrow>
   jsstring \<times> jsstring \<times> rng" where
  "composeSentence st verbs adjectives subject object g =
     (let verb = verbs ! randomIndex (shd g) (length verbs);
          ms = morphoSyntax st;
          gr = grammar (generated st)
      in case subjectPhrase ms adjectives subject (stl g) of
           (phrase, humanReadableSubject, g') \<Rightarrow>
             (let s_final = markCase (caseMarking ms) (subjectMarker gr) phrase;
                  o_final = markCase (caseMarking ms) (objectMarker gr) (roman object);
                  tense = nthOpt (tenses gr) (randomIndex (shd g') (length (tenses gr)));
                  randomTenseKey = map_option fst tense;
                  tenseMarker = map_option snd tense;
                  v_final = roman verb @ js ''-'' @ toStr tenseMarker;
                  orderedSentence = orderSentence (wordOrder ms) s_final o_final v_final
              in (orderedSentence @ js ''.'',
                  js '' ('' @ [0x27] @ js ''The '' @ humanReadableSubject @ js '' '' @
                    toStr (meaning verb) @ js '' ('' @ toStr randomTenseKey @ js '') the '' @
                    toStr (meaning object) @ [0x27] @ js '')'',
                  stl g')))"

text \<open>
  The three lists \<open>dictionary.filter((w) => w.pos === ...)\<close> at the head of
  \<open>generateSentence\<close>.
\<close>

definition nounsOf :: "languageState \<Rightarrow> entry list" where
  "nounsOf st = filter (\<lambda>w. pos w = js ''noun'') (dictionary (generated st))"

definition verbsOf :: "languageState \<Rightarrow> entry list" where
  "verbsOf st = filter (\<lambda>w. pos w = js ''verb'') (dictionary (generated st))"

definition adjectivesOf :: "languageState \<Rightarrow> entry list" where
  "adjectivesOf st = filter (\<lambda>w. pos w = js ''adjective'') (dictionary (generated st))"

text \<open>
  \<open>nouns[Math.floor(Math.random() * nouns.length)]\<close> for the call of \<open>Math.random\<close>
  number \<open>k\<close> (from 0): the subject is drawn by call 0, the object by call 1, and
  each round of the loop draws with the next call.
\<close>

definition nounDrawn :: "entry list \<Rightarrow> rng \<Rightarrow> nat \<Rightarrow> entry" where
  "nounDrawn nouns g k = nouns ! randomIndex (g !! k) (length nouns)"

text \<open>
  \<open>MorphoSyntax.generateSentence\<close>. \<open>None\<close>: the call does not return. Otherwise the
  string returned, and the random source left.
\<close>

definition generateSentence :: "languageState \<Rightarrow> rng \<Rightarrow> (jsstring \<times> rng) option" where
  "generateSentence st g =
     (let nouns = nounsOf st; verbs = verbsOf st; adjectives = adjectivesOf st
      in if length nouns < 2 \<or> length verbs < 1 then Some (insufficientVocabulary, g)
         else
           (let subject = nouns ! randomIndex (shd g) (length nouns);
                object = nouns ! randomIndex (shd (stl g)) (length nouns)
            in case redrawObject nouns subject object (stl (stl g)) of
                 None \<Rightarrow> None
               | Some (object', g') \<Rightarrow>
                   (case composeSentence st verbs adjectives subject object' g' of
                      (sentence, gloss, g'') \<Rightarrow> Some (sentence @ gloss, g''))))"

section \<open>Example configurations\<close>

text \<open>
  The \<open>japanese\<close> preset of the user interface (consonants \<open>p t k b d g m n s z h r j w\<close>,
  vowels \<open>a i u e o\<close>, structure \<open>CV,V,CVN\<close>), as \<open>updateStateFromUI\<close> stores it.
\<close>

definition japanesePreset :: phonology where
  "japanesePreset =
     \<lparr>consonants = map js [''p'', ''t'', ''k'', ''b'', ''d'', ''g'', ''m'', ''n'', ''s'', ''z'',
                            ''h'', ''r'', ''j'', ''w''],
      vowels = map js [''a'', ''i'', ''u'', ''e'', ''o''],
      syllableStructures = map js [''CV'', ''V'', ''CVN''],
      phonologicalRules = [], tones = \<lparr>enabled = False, count = 3\<rparr>\<rparr>"

text \<open>The scenario of the rule \<open>n>m\<close> before \<open>p\<close>, with the single vowel \<open>a\<close>.\<close>

definition nasalRule :: rule where
  "nasalRule = \<lparr>rule_from = js ''n>m'', rule_to = js ''_p''\<rparr>"

definition anpaPhonology :: phonology where
  "anpaPhonology =
     \<lparr>consonants = map js [''n'', ''p''], vowels = [js ''a''],
      syllableStructures = [js ''VCCV''], phonologicalRules = [nasalRule],
      tones = \<lparr>enabled = False, count = 3\<rparr>\<rparr>"

text \<open>A rule whose pattern is \<open>(\<close>, an unclosed group.\<close>

definition malformedRule :: rule where
  "malformedRule = \<lparr>rule_from = js ''(>x'', rule_to = js ''y''\<rparr>"

text \<open>
  The inventory \<open>p t k\<close>, \<open>a i u\<close> with the one structure \<open>CV\<close>, no rules, and the tones
  of the initial state (three tones), disabled and enabled.
\<close>

definition examplePhonology :: phonology where
  "examplePhonology =
     \<lparr>consonants = map js [''p'', ''t'', ''k''], vowels = map js [''a'', ''i'', ''u''],
      syllableStructures = [js ''CV''], phonologicalRules = [],
      tones = \<lparr>enabled = False, count = 3\<rparr>\<rparr>"

definition tonalPhonology :: phonology where
  "tonalPhonology = examplePhonology\<lparr>tones := \<lparr>enabled = True, count = 3\<rparr>\<rparr>"

text \<open>
  A state with one root to generate, from the field name \<open>sun\<close> (not one of the ten
  field names, hence its own meaning), one derivational suffix, and otherwise the
  values of the initial \<open>languageState\<close>.
\<close>

definition exampleState :: languageState where
  "exampleState =
     \<lparr>phonology = examplePhonology,
      lexicon = \<lparr>semanticFields = [js ''sun''], rootCount = 1, loanwords_enabled = False\<rparr>,
      morphoSyntax =
        \<lparr>wordOrder = js ''SOV'', adjectiveOrder = js ''AN'', caseMarking = js ''suffix'',
         irregularityRate = 0.05,
         derivationalMorphemes =
           [\<lparr>morpheme_type = js ''suffix'', form = js ''ka'', func = js ''agent''\<rparr>],
         grammaticalGender = js ''none'', genderAgreement = False\<rparr>,
      generated = \<lparr>dictionary = [], grammar = initialGrammar\<rparr>\<rparr>"

text \<open>
  Seven numbers returned by \<open>Math.random\<close>, then zeros: 1/4 (the structure), 2/5 (the
  consonant \<open>t\<close>), 3/7 (the vowel \<open>i\<close>), 1/5 (the part of speech \<open>noun\<close>), 2/5 (below
  0.5: derive), 1/50 (below the irregularity rate 0.05), 1/2 (the vowel \<open>i\<close>).
\<close>

definition exampleDraws :: rng where
  "exampleDraws =
     draw 1 4 ## draw 2 5 ## draw 3 7 ## draw 1 5 ## draw 2 5 ## draw 1 50 ## draw 1 2 ##
     sconst (draw 0 1)"

text \<open>Two dictionaries of two nouns and a verb; in the second the nouns are written alike.\<close>

definition exampleDictionary :: "entry list" where
  "exampleDictionary =
     [\<lparr>ipa = js ''/pa/'', roman = js ''pa'', pos = js ''noun'', meaning = Some (js ''sun''),
       gender = None\<rparr>,
      \<lparr>ipa = js ''/ta/'', roman = js ''ta'', pos = js ''noun'', meaning = Some (js ''moon''),
       gender = None\<rparr>,
      \<lparr>ipa = js ''/ka/'', roman = js ''ka'', pos = js ''verb'', meaning = Some (js ''go''),
       gender = None\<rparr>]"

definition homophoneDictionary :: "entry list" where
  "homophoneDictionary =
     [\<lparr>ipa = js ''/pa/'', roman = js ''pa'', pos = js ''noun'', meaning = Some (js ''sun''),
       gender = None\<rparr>,
      \<lparr>ipa = js ''/pa/'', roman = js ''pa'', pos = js ''noun'', meaning = Some (js ''moon''),
       gender = None\<rparr>,
      \<lparr>ipa = js ''/ka/'', roman = js ''ka'', pos = js ''verb'', meaning = Some (js ''go''),
       gender = None\<rparr>]"

definition sentenceState :: "entry list \<Rightarrow> languageState" where
  "sentenceState dict =
     exampleState\<lparr>generated := \<lparr>dictionary = dict, grammar = initialGrammar\<rparr>\<rparr>"

text \<open>A grammar table with no marker and no tense.\<close>

definition emptyGrammar :: grammar where
  "emptyGrammar = \<lparr>subjectMarker = [], objectMarker = [], pluralMarker = [], tenses = []\<rparr>"

text \<open>
  The recursion equations of the two loops defined by \<open>function\<close> are used by hand.
\<close>

declare selectMeanings.simps [simp del] drawForm.simps [simp del]

section \<open>Properties\<close>

subsection \<open>The random source\<close>

lemma random_bounds: "0 \<le> random r" "random r < 1"
  by (transfer, simp)+

lemma randomIndex_less: "0 < n \<Longrightarrow> randomIndex r n < n"
proof -
  assume n: "0 < n"
  have "random r * real n < real n" using random_bounds [of r] n by simp
  then have "\<lfloor>random r * real n\<rfloor> < int n" by (simp add: floor_less_iff)
  moreover have "0 \<le> \<lfloor>random r * real n\<rfloor>" using random_bounds [of r] by simp
  ultimately show ?thesis unfolding randomIndex_def by linarith
qed

lemma randomIndex_draw:
  "randomIndex (draw k n) m = nat \<lfloor>(if k < n then real k / real n else 0) * real m\<rfloor>"
  by (simp add: randomIndex_def random.rep_eq draw.rep_eq)

lemma drawTone_draw:
  "drawTone (draw k n) m = \<lfloor>(if k < n then real k / real n else 0) * of_int m\<rfloor> + 1"
  by (simp add: drawTone_def random.rep_eq draw.rep_eq)

lemma drawTone_range: "1 \<le> n \<Longrightarrow> 1 \<le> drawTone r n \<and> drawTone r n \<le> n"
proof -
  assume n: "1 \<le> n"
  have "random r * of_int n < of_int n" using random_bounds [of r] n by simp
  then have "\<lfloor>random r * of_int n\<rfloor> < n" by (simp add: floor_less_iff)
  moreover have "0 \<le> \<lfloor>random r * of_int n\<rfloor>" using random_bounds [of r] n by simp
  ultimately show ?thesis unfolding drawTone_def by linarith
qed

subsection \<open>Romanization\<close>

lemma romanizeChar_unit:
  "romanizeChar [c] =
    (if c = 0x6A then js ''y'' else if c = 0x283 then js ''sh''
     else if c = 0x2A7 then js ''ch'' else if c = 0x2A4 then js ''j''
     else if c = 0x14B then js ''ng'' else if c = 0x3B8 then js ''th''
     else if c = 0xF0 then js ''dh'' else [c])"
  by (simp add: romanizeChar_def ipaToRomanMap_def js_def)

lemma romanizeChar_pair: "romanizeChar [c, d] = [c, d]"
  by (simp add: romanizeChar_def ipaToRomanMap_def js_def)

lemma romanizeChar_surrogate:
  "isHighSurrogate c \<or> isLowSurrogate c \<Longrightarrow> romanizeChar [c] = [c]"
  by (auto simp add: romanizeChar_unit isHighSurrogate_def isLowSurrogate_def)

text \<open>
  No key of the table is a surrogate, so the walk by code point gives the same string
  as a walk by code unit.
\<close>

lemma romanize_units: "romanize s = concat (map (\<lambda>c. romanizeChar [c]) s)"
  unfolding romanize_def
  by (induction s rule: arrayFrom.induct)
     (simp_all add: romanizeChar_pair romanizeChar_surrogate)

lemma romanize_Nil: "romanize [] = []"
  by (simp add: romanize_def)

lemma romanize_Cons: "romanize (c # s) = romanizeChar [c] @ romanize s"
  by (simp add: romanize_units)

lemma romanize_append: "romanize (s @ t) = romanize s @ romanize t"
  by (simp add: romanize_units)

lemma romanize_romanizeChar:
  "c \<noteq> 0x2A4 \<Longrightarrow> romanize (romanizeChar [c]) = romanizeChar [c]"
  by (simp add: romanizeChar_unit romanize_Cons romanize_Nil js_def)

lemma romanizeChar_dezh_twice:
  "romanize (romanizeChar [0x2A4]) @ t \<noteq> romanizeChar [0x2A4] @ t'"
  by (simp add: romanizeChar_unit romanize_Cons romanize_Nil js_def)

lemma romanize_twice_iff:
  "romanize (romanize s) = romanize s \<longleftrightarrow> 0x2A4 \<notin> set s"
proof (induction s)
  case Nil
  show ?case by (simp add: romanize_Nil)
next
  case (Cons c s)
  show ?case
  proof (cases "c = 0x2A4")
    case True
    then show ?thesis
      using romanizeChar_dezh_twice by (simp add: romanize_Cons romanize_append)
  next
    case False
    then show ?thesis
      using Cons.IH by (simp add: romanize_Cons romanize_append romanize_romanizeChar)
  qed
qed

lemma romanize_unmapped:
  "\<forall>c\<in>set s. [c] \<notin> fst ` set ipaToRomanMap \<Longrightarrow> romanize s = s"
proof (induction s)
  case Nil
  show ?case by (simp add: romanize_Nil)
next
  case (Cons c s)
  from Cons.prems have "[c] \<notin> fst ` set ipaToRomanMap" by auto
  then have "map_of ipaToRomanMap [c] = None" by (simp add: map_of_eq_None_iff)
  then have "romanizeChar [c] = [c]" by (simp add: romanizeChar_def)
  moreover from Cons have "romanize s = s" by auto
  ultimately show ?case by (simp add: romanize_Cons)
qed

text \<open>
  C9, as it is stated: \<open>romanize(romanize(s)) = romanize(s)\<close> for every string \<open>s\<close>.
  This fails for the string of the one character U+02A4: the table writes it \<open>j\<close>, and
  \<open>j\<close> is itself a key of the table, written \<open>y\<close>.
\<close>

theorem romanize_not_idempotent:
  "romanize [0x2A4] = js ''j'' \<and> romanize (romanize [0x2A4]) = js ''y'' \<and>
   romanize (romanize [0x2A4]) \<noteq> romanize [0x2A4]"
  by (simp add: romanizeChar_unit romanize_Cons romanize_Nil js_def)

text \<open>
  C9, amended: romanization is a function of its argument alone (as every function
  here is); romanizing twice gives the same string as romanizing once exactly for the
  strings that do not contain U+02A4; and a string none of whose characters is a key
  of the table is returned unchanged.
\<close>

theorem romanize_idempotent_iff:
  "(romanize (romanize s) = romanize s \<longleftrightarrow> 0x2A4 \<notin> set s) \<and>
   ((\<forall>c\<in>set s. [c] \<notin> fst ` set ipaToRomanMap) \<longrightarrow> romanize s = s)"
  using romanize_twice_iff [of s] romanize_unmapped [of s] by blast

text \<open>
  Witness for C9: \<open>shi\<close> written in IPA with U+0283 is romanized to the same string
  once and twice, and \<open>clv\<close>, three letters that are no keys, is returned unchanged.
\<close>

theorem romanize_idempotent_witness:
  "romanize (romanize [0x283, 0x69]) = romanize [0x283, 0x69] \<and>
   romanize (js ''clv'') = js ''clv''"
proof -
  have a: "\<forall>c\<in>set (js ''clv''). [c] \<notin> fst ` set ipaToRomanMap"
    by (simp add: js_def ipaToRomanMap_def)
  have b: "0x2A4 \<notin> set [0x283, 0x69 :: jschar]" by simp
  show ?thesis
    using a b romanize_idempotent_iff [of "[0x283, 0x69]"]
      romanize_idempotent_iff [of "js ''clv''"]
    by blast
qed

subsection \<open>Word synthesis\<close>

lemma fillTemplate_length:
  "\<forall>c\<in>set cs. length c = 1 \<Longrightarrow> \<forall>v\<in>set vs. length v = 1 \<Longrightarrow> cs \<noteq> [] \<Longrightarrow> vs \<noteq> [] \<Longrightarrow>
   length (fst (fillTemplate cs vs chs word g)) =
     length word + length (filter (\<lambda>ch. ch = js ''C'' \<or> ch = js ''V'') chs)"
proof (induction chs arbitrary: word g)
  case Nil
  show ?case by simp
next
  case (Cons ch chs)
  have c: "length (cs ! randomIndex (shd g) (length cs)) = 1"
    using Cons.prems randomIndex_less [of "length cs" "shd g"] by simp
  have v: "length (vs ! randomIndex (shd g) (length vs)) = 1"
    using Cons.prems randomIndex_less [of "length vs" "shd g"] by simp
  show ?case using Cons.IH [OF Cons.prems] c v by simp
qed

lemma arrayFrom_count_CV:
  "length (filter (\<lambda>ch. ch = js ''C'' \<or> ch = js ''V'') (arrayFrom s)) =
   length (filter (\<lambda>c. c = 0x43 \<or> c = 0x56) s)"
  by (induction s rule: arrayFrom.induct)
     (auto simp: js_def isHighSurrogate_def isLowSurrogate_def)

lemma filter_all_length:
  "set s \<subseteq> {a, b} \<Longrightarrow> length (filter (\<lambda>c. c = a \<or> c = b) s) = length s"
  by (induction s) auto

lemmas word_eval = generateWord_def synthesizeWord_def applyPhonologicalRules_def
  randomIndex_draw drawTone_draw fromCodePoint_def js_def isHighSurrogate_def
  isLowSurrogate_def

text \<open>
  C2, as it is stated: for all non-empty inventories and template sets the word has as
  many characters as the chosen template. With the \<open>japanese\<close> preset and a first draw of
  2/3 the template chosen is \<open>CVN\<close>, of three characters, and the word is \<open>pa\<close>, of two:
  a template character other than \<open>C\<close> and \<open>V\<close> adds nothing to the word.
\<close>

theorem synthesizeWord_length_counterexample:
  "synthesizeWord japanesePreset (draw 2 3 ## sconst (draw 0 1)) =
     (js ''CVN'', js ''pa'', sconst (draw 0 1)) \<and>
   length (js ''pa'') \<noteq> length (js ''CVN'')"
  by (simp add: japanesePreset_def word_eval)

text \<open>
  An inventory symbol of two characters breaks the count as well: with the one
  consonant \<open>ts\<close> the template \<open>CV\<close> gives \<open>tsa\<close>.
\<close>

lemma synthesizeWord_long_symbol:
  "synthesizeWord (examplePhonology\<lparr>consonants := [js ''ts'']\<rparr>) (sconst (draw 0 1)) =
     (js ''CV'', js ''tsa'', sconst (draw 0 1))"
  by (simp add: examplePhonology_def word_eval)

text \<open>
  C2, amended: for non-empty inventories whose symbols are single characters and a
  non-empty template set, the template chosen is one of the set, and the word (before
  rules and tone) has as many characters as the template has characters \<open>C\<close> or \<open>V\<close>
  (0x43, 0x56); that is the length of the template when it consists of \<open>C\<close> and \<open>V\<close>
  only. This holds for every sequence of random draws.
\<close>

theorem synthesizeWord_length:
  assumes "consonants ph \<noteq> []" and "vowels ph \<noteq> []" and "syllableStructures ph \<noteq> []"
    and "\<forall>c\<in>set (consonants ph). length c = 1"
    and "\<forall>v\<in>set (vowels ph). length v = 1"
    and "synthesizeWord ph g = (structure, word, g')"
  shows "structure \<in> set (syllableStructures ph) \<and>
         length word = length (filter (\<lambda>c. c = 0x43 \<or> c = 0x56) structure) \<and>
         (set structure \<subseteq> {0x43, 0x56} \<longrightarrow> length word = length structure)"
proof -
  let ?i = "randomIndex (shd g) (length (syllableStructures ph))"
  have i: "?i < length (syllableStructures ph)"
    using assms(3) by (simp add: randomIndex_less)
  have s: "structure = syllableStructures ph ! ?i"
    using assms(6) by (simp add: synthesizeWord_def Let_def split: prod.splits)
  have w: "word = fst (fillTemplate (consonants ph) (vowels ph) (arrayFrom structure) [] (stl g))"
    using assms(6) by (auto simp add: synthesizeWord_def Let_def split: prod.splits)
  have len: "length word = length (filter (\<lambda>c. c = 0x43 \<or> c = 0x56) structure)"
    unfolding w using fillTemplate_length [OF assms(4) assms(5) assms(1) assms(2)]
    by (simp add: arrayFrom_count_CV)
  show ?thesis using i s len by (simp add: filter_all_length)
qed

text \<open>
  Witness for C2: the \<open>japanese\<close> preset with the draws 0, 1/14 and 1/5 gives the
  template \<open>CV\<close> and the word \<open>ti\<close>.
\<close>

theorem synthesizeWord_length_witness:
  "synthesizeWord japanesePreset (draw 0 1 ## draw 1 14 ## draw 1 5 ## sconst (draw 0 1)) =
     (js ''CV'', js ''ti'', sconst (draw 0 1)) \<and>
   js ''CV'' \<in> set (syllableStructures japanesePreset) \<and>
   length (js ''ti'') = length (js ''CV'')"
proof -
  let ?g = "draw 0 1 ## draw 1 14 ## draw 1 5 ## sconst (draw 0 1)"
  have run: "synthesizeWord japanesePreset ?g = (js ''CV'', js ''ti'', sconst (draw 0 1))"
    by (simp add: japanesePreset_def word_eval)
  have h1: "consonants japanesePreset \<noteq> []" and h2: "vowels japanesePreset \<noteq> []"
    and h3: "syllableStructures japanesePreset \<noteq> []"
    and h4: "\<forall>c\<in>set (consonants japanesePreset). length c = 1"
    and h5: "\<forall>v\<in>set (vowels japanesePreset). length v = 1"
    by (simp_all add: japanesePreset_def js_def)
  have cv: "set (js ''CV'') \<subseteq> {0x43, 0x56}" by (simp add: js_def)
  from synthesizeWord_length [OF h1 h2 h3 h4 h5 run] cv run show ?thesis by blast
qed

text \<open>
  C8: when the consonant inventory, the vowel inventory or the structure list is
  empty, \<open>generateWord\<close> returns \<open>null\<close>: it does not raise, returns no string, and
  draws nothing from the random source.
\<close>

theorem generateWord_empty:
  "consonants ph = [] \<or> vowels ph = [] \<or> syllableStructures ph = [] \<Longrightarrow>
   generateWord newRegExp ph g = Inr (None, g)"
  by (simp add: generateWord_def)

text \<open>Witness for C8: the example inventory without its vowels.\<close>

theorem generateWord_empty_witness:
  "generateWord RegExp (examplePhonology\<lparr>vowels := []\<rparr>) (sconst (draw 0 1)) =
     Inr (None, sconst (draw 0 1))"
proof -
  have "vowels (examplePhonology\<lparr>vowels := []\<rparr>) = []" by simp
  then show ?thesis
    using generateWord_empty [of "examplePhonology\<lparr>vowels := []\<rparr>" RegExp "sconst (draw 0 1)"]
    by blast
qed

subsection \<open>Tones\<close>

text \<open>
  With tones enabled and a count from 1 to 9, \<open>generateWord\<close> appends one code unit,
  which is U+2070 plus a tone between 1 and the count.
\<close>

lemma generateWord_tone:
  assumes "consonants ph \<noteq> []" and "vowels ph \<noteq> []" and "syllableStructures ph \<noteq> []"
    and "enabled (tones ph)" and "1 \<le> count (tones ph)" and "count (tones ph) \<le> 9"
    and "synthesizeWord ph g = (structure, word, g')"
  shows "generateWord newRegExp ph g =
           Inr (Some (applyPhonologicalRules newRegExp ph word @
                        [word_of_int (0x2070 + drawTone (shd g') (count (tones ph)))]), stl g') \<and>
         1 \<le> drawTone (shd g') (count (tones ph)) \<and>
         drawTone (shd g') (count (tones ph)) \<le> count (tones ph)"
  using assms drawTone_range [of "count (tones ph)" "shd g'"]
  by (simp add: generateWord_def fromCodePoint_def Let_def)

text \<open>
  C3 says that the code unit appended for the tones 1 to 9 is the superscript digit,
  one of the nine that \<open>ipaToRomanMap\<close> maps to themselves. The code does not do that
  for the tones 1, 2 and 3: with three tones (the count of the initial state) and a last
  draw of 0, 1/3 and 2/3 the word \<open>pa\<close> gets U+2071, U+2072 and U+2073, where the
  superscript digits one, two and three are U+00B9, U+00B2 and U+00B3; the three code
  units appended are no keys of \<open>ipaToRomanMap\<close>.
\<close>

theorem generateWord_tone_glyphs:
  "generateWord RegExp tonalPhonology (sconst (draw 0 1)) =
     Inr (Some (js ''pa'' @ [0x2071]), sconst (draw 0 1)) \<and>
   generateWord RegExp tonalPhonology (draw 0 1 ## draw 0 1 ## draw 0 1 ## sconst (draw 1 3)) =
     Inr (Some (js ''pa'' @ [0x2072]), sconst (draw 1 3)) \<and>
   generateWord RegExp tonalPhonology (draw 0 1 ## draw 0 1 ## draw 0 1 ## sconst (draw 2 3)) =
     Inr (Some (js ''pa'' @ [0x2073]), sconst (draw 2 3)) \<and>
   (0x2071 :: jschar) \<noteq> 0xB9 \<and> (0x2072 :: jschar) \<noteq> 0xB2 \<and> (0x2073 :: jschar) \<noteq> 0xB3 \<and>
   map_of ipaToRomanMap [0x2071] = None \<and> map_of ipaToRomanMap [0x2072] = None \<and>
   map_of ipaToRomanMap [0x2073] = None"
  by (simp add: tonalPhonology_def examplePhonology_def word_eval ipaToRomanMap_def)

subsection \<open>Phonological rules\<close>

lemma applyRules_append:
  "applyRules newRegExp vs (rs1 @ rs2) w =
   applyRules newRegExp vs rs2 (applyRules newRegExp vs rs1 w)"
  by (induction rs1 arbitrary: w) simp_all

lemma applyRules_skip:
  "newRegExp (rulePattern vs r) = None \<Longrightarrow>
   applyRules newRegExp vs (rs1 @ r # rs2) w = applyRules newRegExp vs (rs1 @ rs2) w"
  by (simp add: applyRules_append applyRule_def)

lemmas rule_eval = applyRule_def RegExp_def rulePattern_def ruleReplacement_def js_def
  toStr_def nthOpt_def trim_def isWhiteSpace_def Let_def syntaxChars_def vowelClass_def

text \<open>The pattern text and the replacement of the rule \<open>n>m\<close> before \<open>p\<close>.\<close>

lemma nasalRule_pattern:
  "rulePattern [js ''a''] nasalRule = js ''n(?=p)'' \<and> ruleReplacement nasalRule = js ''m''"
  by (simp add: nasalRule_def rule_eval)

text \<open>
  C4: the rules compose in order, each applied to the result of the ones before it:
  applying a list \<open>rs1 @ rs2\<close> is applying \<open>rs2\<close> to the result of \<open>rs1\<close>, for every
  regular expression engine. With the vowel \<open>a\<close>, the rule \<open>{from: "n>m", to: "_p"}\<close>
  turns \<open>anpa\<close> into \<open>ampa\<close>; followed by the rule \<open>m>b\<close> before \<open>p\<close>, which finds no \<open>m\<close>
  in \<open>anpa\<close> itself, it gives \<open>abpa\<close>.
\<close>

theorem applyPhonologicalRules_sequential:
  "applyPhonologicalRules newRegExp (ph\<lparr>phonologicalRules := rs1 @ rs2\<rparr>) word =
     applyPhonologicalRules newRegExp (ph\<lparr>phonologicalRules := rs2\<rparr>)
       (applyPhonologicalRules newRegExp (ph\<lparr>phonologicalRules := rs1\<rparr>) word) \<and>
   applyPhonologicalRules RegExp anpaPhonology (js ''anpa'') = js ''ampa'' \<and>
   applyPhonologicalRules RegExp
     (anpaPhonology\<lparr>phonologicalRules :=
        [nasalRule, \<lparr>rule_from = js ''m>b'', rule_to = js ''_p''\<rparr>]\<rparr>) (js ''anpa'') =
     js ''abpa'' \<and>
   applyPhonologicalRules RegExp
     (anpaPhonology\<lparr>phonologicalRules := [\<lparr>rule_from = js ''m>b'', rule_to = js ''_p''\<rparr>]\<rparr>)
     (js ''anpa'') = js ''anpa''"
  by (simp add: applyPhonologicalRules_def applyRules_append anpaPhonology_def nasalRule_def
      rule_eval)

text \<open>
  C5: a rule whose pattern the regular expression constructor rejects leaves the word
  as it is, and the rules after it are applied: the result is that of the list without
  the rule. (Rule application has no error result: the only operation of the \<open>try\<close>
  block that can raise is the constructor, and its exception is caught there.)
\<close>

theorem applyPhonologicalRules_malformed_skipped:
  "newRegExp (rulePattern (vowels ph) r) = None \<Longrightarrow>
   applyPhonologicalRules newRegExp (ph\<lparr>phonologicalRules := rs1 @ r # rs2\<rparr>) word =
   applyPhonologicalRules newRegExp (ph\<lparr>phonologicalRules := rs1 @ rs2\<rparr>) word"
  by (simp add: applyPhonologicalRules_def applyRules_skip)

text \<open>
  Witness for C5: the pattern \<open>(\<close> is rejected; put before the rule \<open>n>m\<close>, it does
  not keep \<open>anpa\<close> from becoming \<open>ampa\<close>.
\<close>

theorem applyPhonologicalRules_malformed_witness:
  "RegExp (rulePattern (vowels anpaPhonology) malformedRule) = None \<and>
   applyPhonologicalRules RegExp
     (anpaPhonology\<lparr>phonologicalRules := [] @ malformedRule # [nasalRule]\<rparr>) (js ''anpa'') =
     js ''ampa''"
proof -
  have h: "RegExp (rulePattern (vowels anpaPhonology) malformedRule) = None"
    by (simp add: anpaPhonology_def malformedRule_def rule_eval)
  have e: "applyPhonologicalRules RegExp
      (anpaPhonology\<lparr>phonologicalRules := [] @ [nasalRule]\<rparr>) (js ''anpa'') = js ''ampa''"
    by (simp add: applyPhonologicalRules_def anpaPhonology_def nasalRule_def rule_eval)
  show ?thesis
    using h e
      applyPhonologicalRules_malformed_skipped
        [of RegExp anpaPhonology malformedRule "[]" "[nasalRule]" "js ''anpa''"]
    by simp
qed

subsection \<open>Lexicon generation\<close>

lemma selectMeanings_done:
  "\<not> int (length ms) < rootCount lx \<Longrightarrow> selectMeanings lx fieldIndex ms used g = (ms, g)"
  by (subst selectMeanings.simps) simp

lemma selectMeanings_step:
  "int (length ms) < rootCount lx \<Longrightarrow>
   selectMeanings lx fieldIndex ms used g =
     (case selectMeaning (semanticFields lx) fieldIndex ms used g of
        (meanings', used', g') \<Rightarrow>
          if rootCount lx * 2 < int (fieldIndex + 1) \<and> int (length meanings') < rootCount lx
          then (meanings', g')
          else selectMeanings lx (fieldIndex + 1) meanings' used' g')"
  by (subst selectMeanings.simps) simp

text \<open>
  The base entries are written differently from one another, and a loanword is added
  only when no entry is written like it: without derivational morphemes the
  dictionary has no two entries with the same \<open>roman\<close>.
\<close>

lemma generateBase_distinct:
  "generateBase newRegExp st ms romans dict g = Inr (dict', g') \<Longrightarrow>
   map roman dict = romans \<Longrightarrow> distinct romans \<Longrightarrow> distinct (map roman dict')"
proof (induction ms arbitrary: romans dict g)
  case Nil
  then show ?case by simp
next
  case (Cons m ms)
  show ?case
  proof (cases "drawForm newRegExp (phonology st) romans 0 g")
    case (Inl e)
    with Cons.prems(1) show ?thesis by simp
  next
    case (Inr r)
    obtain w g1 where r: "r = (w, g1)" by (cases r) auto
    show ?thesis
    proof (cases w)
      case None
      with Cons.prems Inr r show ?thesis by (auto intro: Cons.IH)
    next
      case (Some p)
      obtain ipaW romanW where p: "p = (ipaW, romanW)" by (cases p) auto
      show ?thesis
      proof (cases "romanW \<in> set romans")
        case True
        with Cons.prems Inr r Some p show ?thesis by (auto intro: Cons.IH)
      next
        case False
        obtain wordPos wordGender g2 where d:
          "drawPosGender (morphoSyntax st) g1 = (wordPos, wordGender, g2)"
          by (cases "drawPosGender (morphoSyntax st) g1") auto
        let ?e = "\<lparr>ipa = js ''/'' @ ipaW @ js ''/'', roman = romanW, pos = wordPos,
                    meaning = m, gender = wordGender\<rparr>"
        have "generateBase newRegExp st ms (romans @ [romanW]) (dict @ [?e]) g2 = Inr (dict', g')"
          using Cons.prems(1) Inr r Some p False d by simp
        moreover have "map roman (dict @ [?e]) = romans @ [romanW]"
          using Cons.prems(2) by simp
        moreover have "distinct (romans @ [romanW])"
          using Cons.prems(3) False by simp
        ultimately show ?thesis by (rule Cons.IH)
      qed
    qed
  qed
qed

lemma addLoanwords_distinct:
  "distinct (map roman dict) \<Longrightarrow> distinct (map roman (fst (addLoanwords ph n dict g)))"
  by (induction n arbitrary: dict g) (simp_all add: Let_def)

lemma generate_distinct_without_derivation:
  assumes "generate newRegExp st g = Inr (dict, g')"
    and "derivationalMorphemes (morphoSyntax st) = []"
  shows "distinct (map roman dict)"
proof -
  obtain ms g1 where m: "selectMeanings (lexicon st) 0 [] [] g = (ms, g1)"
    by (cases "selectMeanings (lexicon st) 0 [] [] g") auto
  from assms m obtain base g2 where b: "generateBase newRegExp st ms [] [] g1 = Inr (base, g2)"
    by (cases "generateBase newRegExp st ms [] [] g1") (auto simp: generate_def)
  have db: "distinct (map roman base)"
    using generateBase_distinct [OF b] by simp
  show ?thesis
  proof (cases "loanwords_enabled (lexicon st)")
    case True
    with assms m b have "dict = fst (addLoanwords (phonology st)
        (nat (loanwordCount (rootCount (lexicon st)))) base g2)"
      by (auto simp: generate_def)
    with db show ?thesis by (simp add: addLoanwords_distinct)
  next
    case False
    with assms m b have "dict = base" by (auto simp: generate_def)
    with db show ?thesis by simp
  qed
qed

text \<open>The run of \<open>generate\<close> on the example state, step by step.\<close>

lemma example_meanings:
  "selectMeanings (lexicon exampleState) 0 [] [] g = ([Some (js ''sun'')], g)"
  by (simp add: selectMeanings_step selectMeanings_done exampleState_def selectMeaning_def
      nthOpt_def semanticFieldMap_def js_def Let_def)

lemma example_word:
  "generateWord RegExp examplePhonology exampleDraws =
     Inr (Some (js ''ti''),
          draw 1 5 ## draw 2 5 ## draw 1 50 ## draw 1 2 ## sconst (draw 0 1))"
  by (simp add: examplePhonology_def exampleDraws_def word_eval)

lemma romanize_ti: "romanize (js ''ti'') = js ''ti''"
  by (simp add: romanize_def romanizeChar_def ipaToRomanMap_def js_def)

lemma example_form:
  "drawForm RegExp examplePhonology [] 0 exampleDraws =
     Inr (Some (js ''ti'', js ''ti''),
          draw 1 5 ## draw 2 5 ## draw 1 50 ## draw 1 2 ## sconst (draw 0 1))"
  apply (subst drawForm.simps)
  apply (simp add: example_word falsy_def toStr_def romanize_ti)
  apply (simp add: js_def)
  done

lemma example_base:
  "generateBase RegExp exampleState [Some (js ''sun'')] [] [] exampleDraws =
     Inr ([\<lparr>ipa = js ''/ti/'', roman = js ''ti'', pos = js ''noun'',
            meaning = Some (js ''sun''), gender = None\<rparr>],
          draw 2 5 ## draw 1 50 ## draw 1 2 ## sconst (draw 0 1))"
proof -
  have p: "phonology exampleState = examplePhonology" by (simp add: exampleState_def)
  show ?thesis
    apply (simp add: p example_form)
    apply (simp add: drawPosGender_def posList_def randomIndex_draw exampleState_def js_def)
    done
qed

lemma example_derived:
  "deriveAll exampleState (derivationalMorphemes (morphoSyntax exampleState))
     [\<lparr>ipa = js ''/ti/'', roman = js ''ti'', pos = js ''noun'', meaning = Some (js ''sun''),
       gender = None\<rparr>] []
     (draw 2 5 ## draw 1 50 ## draw 1 2 ## sconst (draw 0 1)) =
   ([\<lparr>ipa = js ''/ti/'', roman = js ''ti'', pos = js ''agent'',
      meaning = Some (js ''sun (irregular agent)''), gender = None\<rparr>], sconst (draw 0 1))"
  by (simp add: exampleState_def examplePhonology_def deriveWord_def random.rep_eq draw.rep_eq
      randomIndex_draw slice_1_m1_def lastVowelIndex_def romanize_def romanizeChar_def
      ipaToRomanMap_def toStr_def js_def isHighSurrogate_def isLowSurrogate_def)

text \<open>
  C1 says that one pass of \<open>generate\<close> never leaves two entries with the same \<open>roman\<close>.
  The pass on the example state (inventory \<open>p t k\<close>, \<open>a i u\<close>, structure \<open>CV\<close>, one root,
  one derivational morpheme, irregularity rate 0.05) with the example draws makes the
  base entry \<open>ti\<close> and then its irregular derivation, which replaces the last vowel
  \<open>i\<close> by the vowel drawn, again \<open>i\<close>: the dictionary holds two entries written \<open>ti\<close>.
  Derived entries are not checked against the entries already made, as base entries
  and loanwords are.
\<close>

theorem generate_duplicate_roman:
  "generate RegExp exampleState exampleDraws =
     Inr ([\<lparr>ipa = js ''/ti/'', roman = js ''ti'', pos = js ''noun'',
            meaning = Some (js ''sun''), gender = None\<rparr>,
           \<lparr>ipa = js ''/ti/'', roman = js ''ti'', pos = js ''agent'',
            meaning = Some (js ''sun (irregular agent)''), gender = None\<rparr>],
          sconst (draw 0 1))"
proof -
  have l: "\<not> loanwords_enabled (lexicon exampleState)" by (simp add: exampleState_def)
  show ?thesis
    unfolding generate_def example_meanings prod.case example_base sum.case example_derived
    using l by simp
qed

subsection \<open>The object loop of sentence composition\<close>

lemma redrawObject_differs:
  "roman object \<noteq> roman subject \<Longrightarrow> redrawObject nouns subject object g = Some (object, g)"
  by (subst redrawObject.simps) simp

lemma redrawObject_same:
  "roman object = roman subject \<Longrightarrow>
   redrawObject nouns subject object g =
   redrawObject nouns subject (nounDrawn nouns g 0) (stl g)"
  by (subst redrawObject.simps) (simp add: nounDrawn_def)

lemma nounDrawn_stl: "nounDrawn nouns (stl g) k = nounDrawn nouns g (Suc k)"
  by (simp add: nounDrawn_def)

lemma nounDrawn_stl2: "nounDrawn nouns (stl (stl g)) k = nounDrawn nouns g (Suc (Suc k))"
  by (simp add: nounDrawn_def)

lemma nounDrawn_mem: "nouns \<noteq> [] \<Longrightarrow> nounDrawn nouns g k \<in> set nouns"
  by (simp add: nounDrawn_def randomIndex_less)

lemma nounDrawn_sconst: "nounDrawn nouns (sconst d) k = nounDrawn nouns (sconst d) 0"
  by (simp add: nounDrawn_def)

text \<open>The loop ends as soon as a draw selects a noun written unlike the subject.\<close>

lemma redrawObject_returns:
  "roman (nounDrawn nouns g k) \<noteq> roman subject \<Longrightarrow>
   \<exists>res. redrawObject nouns subject object g = Some res"
proof (induction k arbitrary: object g)
  case 0
  show ?case
  proof (cases "roman object = roman subject")
    case True
    then show ?thesis using 0 by (simp add: redrawObject_same redrawObject_differs)
  next
    case False
    then show ?thesis by (simp add: redrawObject_differs)
  qed
next
  case (Suc k)
  show ?case
  proof (cases "roman object = roman subject")
    case True
    have "\<exists>res. redrawObject nouns subject (nounDrawn nouns g 0) (stl g) = Some res"
      using Suc.prems by (intro Suc.IH) (simp add: nounDrawn_stl)
    then show ?thesis using True by (simp add: redrawObject_same)
  next
    case False
    then show ?thesis by (simp add: redrawObject_differs)
  qed
qed

text \<open>
  What the loop returns is written unlike the subject, and is the object it started
  with or a noun drawn. By induction on the least fixed point that defines the loop.
\<close>

lemma redrawObject_result:
  assumes "redrawObject nouns subject object g = Some res"
  shows "roman (fst res) \<noteq> roman subject \<and>
         (fst res = object \<or> (\<exists>k. fst res = nounDrawn nouns g k))"
proof (rule redrawObject.raw_induct
    [where P = "\<lambda>nouns subject object g res. roman (fst res) \<noteq> roman subject \<and>
         (fst res = object \<or> (\<exists>k. fst res = nounDrawn nouns g k))", OF _ assms])
  fix redraw :: "entry list \<Rightarrow> entry \<Rightarrow> entry \<Rightarrow> rng \<Rightarrow> (entry \<times> rng) option"
    and nouns subject object and g :: rng and res :: "entry \<times> rng"
  assume IH: "\<And>nouns subject object g res. redraw nouns subject object g = Some res \<Longrightarrow>
    roman (fst res) \<noteq> roman subject \<and>
    (fst res = object \<or> (\<exists>k. fst res = nounDrawn nouns g k))"
  assume step: "(if roman object = roman subject
      then redraw nouns subject (nouns ! randomIndex (shd g) (length nouns)) (stl g)
      else Some (object, g)) = Some res"
  show "roman (fst res) \<noteq> roman subject \<and>
    (fst res = object \<or> (\<exists>k. fst res = nounDrawn nouns g k))"
  proof (cases "roman object = roman subject")
    case True
    with step have "redraw nouns subject (nounDrawn nouns g 0) (stl g) = Some res"
      by (simp add: nounDrawn_def)
    from IH [OF this] have r: "roman (fst res) \<noteq> roman subject"
      and d: "fst res = nounDrawn nouns g 0 \<or> (\<exists>k. fst res = nounDrawn nouns (stl g) k)"
      by auto
    from d have "\<exists>k. fst res = nounDrawn nouns g k"
      by (auto simp: nounDrawn_stl)
    with r show ?thesis by simp
  next
    case False
    with step show ?thesis by auto
  qed
qed

subsection \<open>Sentence composition\<close>

lemma generateSentence_enough:
  assumes "2 \<le> length (nounsOf st)" and "1 \<le> length (verbsOf st)"
  shows "generateSentence st g =
    (case redrawObject (nounsOf st) (nounDrawn (nounsOf st) g 0) (nounDrawn (nounsOf st) g 1)
            (stl (stl g)) of
       None \<Rightarrow> None
     | Some (object', g') \<Rightarrow>
         (case composeSentence st (verbsOf st) (adjectivesOf st) (nounDrawn (nounsOf st) g 0)
                 object' g' of
            (sentence, gloss, g'') \<Rightarrow> Some (sentence @ gloss, g'')))"
  using assms
  by (auto simp add: generateSentence_def nounDrawn_def Let_def split: option.splits prod.splits)

lemma generateSentence_Some_iff:
  assumes "2 \<le> length (nounsOf st)" and "1 \<le> length (verbsOf st)"
  shows "(\<exists>res. generateSentence st g = Some res) \<longleftrightarrow>
         (\<exists>k. roman (nounDrawn (nounsOf st) g (Suc k)) \<noteq> roman (nounDrawn (nounsOf st) g 0))"
proof
  assume "\<exists>res. generateSentence st g = Some res"
  then obtain r where "redrawObject (nounsOf st) (nounDrawn (nounsOf st) g 0)
      (nounDrawn (nounsOf st) g 1) (stl (stl g)) = Some r"
    by (auto simp: generateSentence_enough [OF assms] split: option.splits)
  from redrawObject_result [OF this]
  show "\<exists>k. roman (nounDrawn (nounsOf st) g (Suc k)) \<noteq> roman (nounDrawn (nounsOf st) g 0)"
    by (auto simp: nounDrawn_stl2)
next
  assume "\<exists>k. roman (nounDrawn (nounsOf st) g (Suc k)) \<noteq> roman (nounDrawn (nounsOf st) g 0)"
  then obtain k where
    k: "roman (nounDrawn (nounsOf st) g (Suc k)) \<noteq> roman (nounDrawn (nounsOf st) g 0)"
    by blast
  have "\<exists>r. redrawObject (nounsOf st) (nounDrawn (nounsOf st) g 0)
      (nounDrawn (nounsOf st) g 1) (stl (stl g)) = Some r"
  proof (cases k)
    case 0
    with k show ?thesis by (simp add: redrawObject_differs)
  next
    case (Suc j)
    with k have
      "roman (nounDrawn (nounsOf st) (stl (stl g)) j) \<noteq> roman (nounDrawn (nounsOf st) g 0)"
      by (simp add: nounDrawn_stl2)
    then show ?thesis by (rule redrawObject_returns)
  qed
  then show "\<exists>res. generateSentence st g = Some res"
    by (auto simp: generateSentence_enough [OF assms] split: option.splits prod.splits)
qed

lemma subjectPhrase_cases:
  assumes "subjectPhrase ms adjectives subject g = (phrase, hrs, g')"
  shows "phrase = roman subject \<or>
         (\<exists>adjective\<in>set adjectives.
            phrase = adjectiveForm ms subject adjective @ js '' '' @ roman subject \<or>
            phrase = roman subject @ js '' '' @ adjectiveForm ms subject adjective)"
proof (cases "0 < length adjectives \<and> 0.5 < random (shd g)")
  case True
  then have "adjectives ! randomIndex (shd (stl g)) (length adjectives) \<in> set adjectives"
    by (simp add: randomIndex_less)
  then show ?thesis using assms True
    by (auto simp: subjectPhrase_def Let_def split: if_splits)
next
  case False
  then show ?thesis using assms
    by (auto simp: subjectPhrase_def Let_def split: if_splits)
qed

lemma orderSentence_SOV:
  "orderSentence (js ''SOV'') s_final o_final v_final =
   s_final @ js '' '' @ o_final @ js '' '' @ v_final"
  by (simp add: orderSentence_def js_def)

lemma composeSentence_suffix_SOV:
  assumes "caseMarking (morphoSyntax st) = js ''suffix''"
    and "wordOrder (morphoSyntax st) = js ''SOV''"
    and "subjectMarker (grammar (generated st)) = js ''ga''"
    and "objectMarker (grammar (generated st)) = js ''wo''"
    and "tenses (grammar (generated st)) \<noteq> []"
    and "verbs \<noteq> []"
  shows "\<exists>verb phrase hrs key marker g'.
     composeSentence st verbs adjectives subject object g =
       (phrase @ js ''-ga '' @ roman object @ js ''-wo '' @ roman verb @ js ''-'' @ marker @
          js ''.'',
        js '' ('' @ [0x27] @ js ''The '' @ hrs @ js '' '' @ toStr (meaning verb) @ js '' ('' @
          key @ js '') the '' @ toStr (meaning object) @ [0x27] @ js '')'', g') \<and>
     verb \<in> set verbs \<and> (key, marker) \<in> set (tenses (grammar (generated st))) \<and>
     (phrase = roman subject \<or>
      (\<exists>adjective\<in>set adjectives.
         phrase = adjectiveForm (morphoSyntax st) subject adjective @ js '' '' @ roman subject \<or>
         phrase = roman subject @ js '' '' @ adjectiveForm (morphoSyntax st) subject adjective))"
proof -
  let ?verb = "verbs ! randomIndex (shd g) (length verbs)"
  obtain phrase hrs g1 where sp:
    "subjectPhrase (morphoSyntax st) adjectives subject (stl g) = (phrase, hrs, g1)"
    by (cases "subjectPhrase (morphoSyntax st) adjectives subject (stl g)") auto
  let ?ts = "tenses (grammar (generated st))"
  let ?i = "randomIndex (shd g1) (length ?ts)"
  have i: "?i < length ?ts" using assms(5) by (simp add: randomIndex_less)
  obtain key marker where t: "?ts ! ?i = (key, marker)" by (cases "?ts ! ?i") auto
  have tm: "(key, marker) \<in> set ?ts" using i t by (metis nth_mem)
  have v: "?verb \<in> set verbs" using assms(6) by (simp add: randomIndex_less)
  have "composeSentence st verbs adjectives subject object g =
       (phrase @ js ''-ga '' @ roman object @ js ''-wo '' @ roman ?verb @ js ''-'' @ marker @
          js ''.'',
        js '' ('' @ [0x27] @ js ''The '' @ hrs @ js '' '' @ toStr (meaning ?verb) @ js '' ('' @
          key @ js '') the '' @ toStr (meaning object) @ [0x27] @ js '')'', stl g1)"
    using assms(1-4) sp i t
    by (simp add: composeSentence_def Let_def markCase_def orderSentence_SOV nthOpt_def toStr_def)
       (simp add: js_def)
  then show ?thesis using v tm subjectPhrase_cases [OF sp] by blast
qed

lemmas sentence_eval = generateSentence_def nounsOf_def verbsOf_def adjectivesOf_def
  composeSentence_def subjectPhrase_def adjectiveForm_def markCase_def orderSentence_def
  nthOpt_def toStr_def falsy_def randomIndex_draw random.rep_eq draw.rep_eq redrawObject_differs
  initialGrammar_def Let_def js_def

text \<open>A run on the example dictionary: subject \<open>pa\<close>, object \<open>ta\<close>, verb \<open>ka\<close>, past.\<close>

lemma example_sentence:
  "generateSentence (sentenceState exampleDictionary)
     (draw 0 1 ## draw 1 2 ## sconst (draw 0 1)) =
   Some (js ''pa-ga ta-wo ka-ta.'' @ js '' ('' @ [0x27] @ js ''The sun go (past) the moon'' @
           [0x27] @ js '')'',
         sconst (draw 0 1))"
  by (simp add: sentenceState_def exampleState_def exampleDictionary_def sentence_eval)

lemma example_vocabulary:
  "2 \<le> length (nounsOf (sentenceState exampleDictionary))"
  "1 \<le> length (verbsOf (sentenceState exampleDictionary))"
  "2 \<le> length (nounsOf (sentenceState homophoneDictionary))"
  "1 \<le> length (verbsOf (sentenceState homophoneDictionary))"
  by (simp_all add: nounsOf_def verbsOf_def sentenceState_def exampleDictionary_def
      homophoneDictionary_def js_def)

lemma example_second_draw:
  "roman (nounDrawn (nounsOf (sentenceState exampleDictionary))
            (draw 0 1 ## draw 1 2 ## sconst (draw 0 1)) (Suc 0)) \<noteq>
   roman (nounDrawn (nounsOf (sentenceState exampleDictionary))
            (draw 0 1 ## draw 1 2 ## sconst (draw 0 1)) 0)"
  by (simp add: nounDrawn_def nounsOf_def sentenceState_def exampleDictionary_def
      randomIndex_draw js_def)

text \<open>
  C6: with fewer than two nouns or no verb in the dictionary, \<open>generateSentence\<close>
  returns the fixed string of line 396. It returns (the result is not \<open>None\<close>), it
  draws nothing, and the result is the same whatever the grammar table holds, markers
  and tenses: the table is not read.
\<close>

theorem generateSentence_insufficient:
  "length (nounsOf st) < 2 \<or> length (verbsOf st) < 1 \<Longrightarrow>
   generateSentence (st\<lparr>generated := (generated st)\<lparr>grammar := gr\<rparr>\<rparr>) g =
     Some (insufficientVocabulary, g)"
  by (auto simp add: generateSentence_def nounsOf_def verbsOf_def Let_def)

text \<open>
  Witness for C6: a dictionary of one noun and one verb, with the initial grammar
  table and with an empty one.
\<close>

theorem generateSentence_insufficient_witness:
  "generateSentence
     ((sentenceState (tl exampleDictionary))
        \<lparr>generated := (generated (sentenceState (tl exampleDictionary)))
           \<lparr>grammar := emptyGrammar\<rparr>\<rparr>)
     exampleDraws = Some (insufficientVocabulary, exampleDraws) \<and>
   generateSentence
     ((sentenceState (tl exampleDictionary))
        \<lparr>generated := (generated (sentenceState (tl exampleDictionary)))
           \<lparr>grammar := initialGrammar\<rparr>\<rparr>)
     exampleDraws = Some (insufficientVocabulary, exampleDraws)"
proof -
  have h: "length (nounsOf (sentenceState (tl exampleDictionary))) < 2 \<or>
           length (verbsOf (sentenceState (tl exampleDictionary))) < 1"
    by (simp add: nounsOf_def sentenceState_def exampleDictionary_def js_def)
  show ?thesis
    using generateSentence_insufficient [OF h, of emptyGrammar exampleDraws]
      generateSentence_insufficient [OF h, of initialGrammar exampleDraws]
    by blast
qed

text \<open>
  C7: with case marking \<open>suffix\<close>, subject marker \<open>ga\<close>, object marker \<open>wo\<close> and word
  order \<open>SOV\<close>, a dictionary of at least two nouns and a verb, a non-empty tense table,
  and a draw that selects an object written unlike the subject, \<open>generateSentence\<close>
  returns, and what it returns is: the subject phrase with \<open>-ga\<close>, a space, the object's
  \<open>roman\<close> with \<open>-wo\<close>, a space, the verb's \<open>roman\<close> with \<open>-\<close> and the marker of a tense of
  the table, a period, and then the gloss. Subject and object are nouns of the
  dictionary written differently, the verb is a verb of the dictionary, and the
  subject phrase is the subject's \<open>roman\<close>, alone or with the form of an adjective of
  the dictionary before or after it.
\<close>

theorem generateSentence_suffix_SOV:
  assumes "caseMarking (morphoSyntax st) = js ''suffix''"
    and "wordOrder (morphoSyntax st) = js ''SOV''"
    and "subjectMarker (grammar (generated st)) = js ''ga''"
    and "objectMarker (grammar (generated st)) = js ''wo''"
    and "tenses (grammar (generated st)) \<noteq> []"
    and "2 \<le> length (nounsOf st)" and "1 \<le> length (verbsOf st)"
    and "roman (nounDrawn (nounsOf st) g (Suc k)) \<noteq> roman (nounDrawn (nounsOf st) g 0)"
  shows "\<exists>subject object verb phrase hrs key marker g'.
     generateSentence st g =
       Some ((phrase @ js ''-ga '' @ roman object @ js ''-wo '' @ roman verb @ js ''-'' @
                marker @ js ''.'') @
             js '' ('' @ [0x27] @ js ''The '' @ hrs @ js '' '' @ toStr (meaning verb) @
               js '' ('' @ key @ js '') the '' @ toStr (meaning object) @ [0x27] @ js '')'',
             g') \<and>
     subject \<in> set (nounsOf st) \<and> object \<in> set (nounsOf st) \<and>
     roman object \<noteq> roman subject \<and>
     verb \<in> set (verbsOf st) \<and> (key, marker) \<in> set (tenses (grammar (generated st))) \<and>
     (phrase = roman subject \<or>
      (\<exists>adjective\<in>set (adjectivesOf st).
         phrase = adjectiveForm (morphoSyntax st) subject adjective @ js '' '' @ roman subject \<or>
         phrase = roman subject @ js '' '' @ adjectiveForm (morphoSyntax st) subject adjective))"
proof -
  let ?nouns = "nounsOf st"
  let ?subject = "nounDrawn ?nouns g 0"
  have ne: "?nouns \<noteq> []" and ve: "verbsOf st \<noteq> []" using assms(6,7) by auto
  have "\<exists>res. generateSentence st g = Some res"
    using generateSentence_Some_iff [OF assms(6,7)] assms(8) by blast
  then obtain ob g1 where
    r: "redrawObject ?nouns ?subject (nounDrawn ?nouns g 1) (stl (stl g)) = Some (ob, g1)"
    by (auto simp: generateSentence_enough [OF assms(6,7)] split: option.splits)
  from redrawObject_result [OF r] have d: "roman ob \<noteq> roman ?subject" and m: "ob \<in> set ?nouns"
    using nounDrawn_mem [OF ne] by auto
  from composeSentence_suffix_SOV [OF assms(1-5) ve, of "adjectivesOf st" ?subject ob g1]
  obtain verb phrase hrs key marker g' where c:
    "composeSentence st (verbsOf st) (adjectivesOf st) ?subject ob g1 =
       (phrase @ js ''-ga '' @ roman ob @ js ''-wo '' @ roman verb @ js ''-'' @ marker @
          js ''.'',
        js '' ('' @ [0x27] @ js ''The '' @ hrs @ js '' '' @ toStr (meaning verb) @ js '' ('' @
          key @ js '') the '' @ toStr (meaning ob) @ [0x27] @ js '')'', g')"
    and rest: "verb \<in> set (verbsOf st)" "(key, marker) \<in> set (tenses (grammar (generated st)))"
     "phrase = roman ?subject \<or>
      (\<exists>adjective\<in>set (adjectivesOf st).
         phrase = adjectiveForm (morphoSyntax st) ?subject adjective @ js '' '' @ roman ?subject \<or>
         phrase = roman ?subject @ js '' '' @ adjectiveForm (morphoSyntax st) ?subject adjective)"
    by blast
  have "generateSentence st g =
       Some ((phrase @ js ''-ga '' @ roman ob @ js ''-wo '' @ roman verb @ js ''-'' @ marker @
                js ''.'') @
             js '' ('' @ [0x27] @ js ''The '' @ hrs @ js '' '' @ toStr (meaning verb) @
               js '' ('' @ key @ js '') the '' @ toStr (meaning ob) @ [0x27] @ js '')'', g')"
    using r c by (simp add: generateSentence_enough [OF assms(6,7)])
  then show ?thesis using rest d m nounDrawn_mem [OF ne, of g 0] by blast
qed

text \<open>
  Witness for C7: the example dictionary under the configuration of C7, with the
  draws 0 (subject \<open>pa\<close>) and 1/2 (object \<open>ta\<close>); the sentence is \<open>pa-ga ta-wo ka-ta.\<close>
  (lemma \<open>example_sentence\<close>).
\<close>

theorem generateSentence_suffix_SOV_witness:
  "\<exists>subject object verb phrase hrs key marker g'.
     generateSentence (sentenceState exampleDictionary)
       (draw 0 1 ## draw 1 2 ## sconst (draw 0 1)) =
       Some ((phrase @ js ''-ga '' @ roman object @ js ''-wo '' @ roman verb @ js ''-'' @
                marker @ js ''.'') @
             js '' ('' @ [0x27] @ js ''The '' @ hrs @ js '' '' @ toStr (meaning verb) @
               js '' ('' @ key @ js '') the '' @ toStr (meaning object) @ [0x27] @ js '')'',
             g') \<and>
     subject \<in> set (nounsOf (sentenceState exampleDictionary)) \<and>
     object \<in> set (nounsOf (sentenceState exampleDictionary)) \<and>
     roman object \<noteq> roman subject \<and>
     verb \<in> set (verbsOf (sentenceState exampleDictionary)) \<and>
     (key, marker) \<in> set (tenses (grammar (generated (sentenceState exampleDictionary)))) \<and>
     (phrase = roman subject \<or>
      (\<exists>adjective\<in>set (adjectivesOf (sentenceState exampleDictionary)).
         phrase = adjectiveForm (morphoSyntax (sentenceState exampleDictionary)) subject
                    adjective @ js '' '' @ roman subject \<or>
         phrase = roman subject @ js '' '' @
                    adjectiveForm (morphoSyntax (sentenceState exampleDictionary)) subject
                      adjective))"
proof -
  have h1: "caseMarking (morphoSyntax (sentenceState exampleDictionary)) = js ''suffix''"
    and h2: "wordOrder (morphoSyntax (sentenceState exampleDictionary)) = js ''SOV''"
    and h3: "subjectMarker (grammar (generated (sentenceState exampleDictionary))) = js ''ga''"
    and h4: "objectMarker (grammar (generated (sentenceState exampleDictionary))) = js ''wo''"
    and h5: "tenses (grammar (generated (sentenceState exampleDictionary))) \<noteq> []"
    by (simp_all add: sentenceState_def exampleState_def initialGrammar_def)
  show ?thesis
    by (rule generateSentence_suffix_SOV
        [OF h1 h2 h3 h4 h5 example_vocabulary(1) example_vocabulary(2) example_second_draw])
qed

text \<open>
  With two nouns written differently among the nouns, a random source that, after its
  first call, draws every index of the noun list at some call makes the call return.
\<close>

lemma generateSentence_fair_returns:
  assumes "2 \<le> length (nounsOf st)" and "1 \<le> length (verbsOf st)"
    and "a \<in> set (nounsOf st)" and "b \<in> set (nounsOf st)" and "roman a \<noteq> roman b"
    and "\<forall>i<length (nounsOf st). \<exists>k. randomIndex (g !! Suc k) (length (nounsOf st)) = i"
  shows "\<exists>res. generateSentence st g = Some res"
proof -
  let ?nouns = "nounsOf st"
  let ?subject = "nounDrawn ?nouns g 0"
  obtain x where x: "x \<in> set ?nouns" and d: "roman x \<noteq> roman ?subject"
    using assms(3-5) by (cases "roman a = roman ?subject") auto
  from x obtain i where i: "i < length ?nouns" and xi: "?nouns ! i = x"
    by (auto simp: in_set_conv_nth)
  from assms(6) i obtain k where "randomIndex (g !! Suc k) (length ?nouns) = i"
    by blast
  then have "nounDrawn ?nouns g (Suc k) = x"
    using xi by (simp add: nounDrawn_def)
  with d have "\<exists>k. roman (nounDrawn ?nouns g (Suc k)) \<noteq> roman ?subject"
    by blast
  then show ?thesis
    using generateSentence_Some_iff [OF assms(1,2)] by blast
qed

text \<open>
  The condition on the random source is what "terminates" rests on: the loop has no
  bound, and on the source that returns 0 at every call, which a uniform source
  gives with probability zero, the subject of the example dictionary is \<open>pa\<close>, every
  object drawn is \<open>pa\<close>, and the call does not return.
\<close>

lemma generateSentence_constant_source:
  "generateSentence (sentenceState exampleDictionary) (sconst (draw 0 1)) = None"
proof -
  note n = example_vocabulary(1) and v = example_vocabulary(2)
  have "\<not> (\<exists>res. generateSentence (sentenceState exampleDictionary) (sconst (draw 0 1)) =
              Some res)"
    unfolding generateSentence_Some_iff [OF n v]
    using nounDrawn_sconst [of _ "draw 0 1" "Suc _"] by simp
  then show ?thesis
    by (cases "generateSentence (sentenceState exampleDictionary) (sconst (draw 0 1))") auto
qed

text \<open>
  C10: for a dictionary of at least two nouns and a verb (the guard of line 396),
  \<^item> when two nouns are written differently, \<open>generateSentence\<close> returns on every random
    source that, after the call that draws the subject, draws each index of the noun
    list at some call (as a uniform source does);
  \<^item> it returns exactly when some call after the first selects a noun written unlike
    the subject: the loop redraws, without a bound, until then;
  \<^item> so a return needs two nouns written differently, and
  \<^item> when all nouns are written alike the call returns on no random source: passing
    the guard is not enough.
\<close>

theorem generateSentence_terminates:
  assumes "2 \<le> length (nounsOf st)" and "1 \<le> length (verbsOf st)"
  shows "((\<exists>a\<in>set (nounsOf st). \<exists>b\<in>set (nounsOf st). roman a \<noteq> roman b) \<and>
          (\<forall>i<length (nounsOf st).
             \<exists>k. randomIndex (g !! Suc k) (length (nounsOf st)) = i) \<longrightarrow>
          (\<exists>res. generateSentence st g = Some res)) \<and>
         ((\<exists>res. generateSentence st g = Some res) \<longleftrightarrow>
          (\<exists>k. roman (nounDrawn (nounsOf st) g (Suc k)) \<noteq> roman (nounDrawn (nounsOf st) g 0))) \<and>
         ((\<exists>res. generateSentence st g = Some res) \<longrightarrow>
          (\<exists>a\<in>set (nounsOf st). \<exists>b\<in>set (nounsOf st). roman a \<noteq> roman b)) \<and>
         ((\<forall>a\<in>set (nounsOf st). \<forall>b\<in>set (nounsOf st). roman a = roman b) \<longrightarrow>
          generateSentence st g = None)"
proof -
  have ne: "nounsOf st \<noteq> []" using assms(1) by auto
  have suff: "(\<exists>a\<in>set (nounsOf st). \<exists>b\<in>set (nounsOf st). roman a \<noteq> roman b) \<and>
          (\<forall>i<length (nounsOf st).
             \<exists>k. randomIndex (g !! Suc k) (length (nounsOf st)) = i) \<longrightarrow>
          (\<exists>res. generateSentence st g = Some res)"
    using generateSentence_fair_returns [OF assms] by blast
  have iff: "(\<exists>res. generateSentence st g = Some res) \<longleftrightarrow>
          (\<exists>k. roman (nounDrawn (nounsOf st) g (Suc k)) \<noteq> roman (nounDrawn (nounsOf st) g 0))"
    by (rule generateSentence_Some_iff [OF assms])
  have nec: "(\<exists>res. generateSentence st g = Some res) \<longrightarrow>
          (\<exists>a\<in>set (nounsOf st). \<exists>b\<in>set (nounsOf st). roman a \<noteq> roman b)"
    unfolding iff using nounDrawn_mem [OF ne] by blast
  have same: "(\<forall>a\<in>set (nounsOf st). \<forall>b\<in>set (nounsOf st). roman a = roman b) \<longrightarrow>
          generateSentence st g = None"
    using nec by (cases "generateSentence st g") auto
  from suff iff nec same show ?thesis by blast
qed

text \<open>
  Witness for C10: the example dictionary has the nouns \<open>pa\<close> and \<open>ta\<close>; the source
  1/2, 1/2, 0, 0, ... draws the subject \<open>ta\<close>, then the index 1 and, from the third
  call on, the index 0, so every index is drawn after the first call, and the call
  returns. On the dictionary whose two nouns are both written \<open>pa\<close> the same source
  gives no return.
\<close>

theorem generateSentence_terminates_witness:
  "(\<exists>res. generateSentence (sentenceState exampleDictionary)
            (draw 1 2 ## draw 1 2 ## sconst (draw 0 1)) = Some res) \<and>
   generateSentence (sentenceState homophoneDictionary)
     (draw 1 2 ## draw 1 2 ## sconst (draw 0 1)) = None"
proof -
  let ?g = "draw 1 2 ## draw 1 2 ## sconst (draw 0 1)"
  let ?st = "sentenceState exampleDictionary"
  have len: "length (nounsOf ?st) = 2"
    by (simp add: nounsOf_def sentenceState_def exampleDictionary_def js_def)
  have two: "\<exists>a\<in>set (nounsOf ?st). \<exists>b\<in>set (nounsOf ?st). roman a \<noteq> roman b"
    by (auto simp add: nounsOf_def sentenceState_def exampleDictionary_def js_def)
  have i0: "randomIndex (?g !! Suc 1) 2 = 0" and i1: "randomIndex (?g !! Suc 0) 2 = 1"
    by (simp_all add: randomIndex_draw)
  have fair: "\<forall>i<length (nounsOf ?st). \<exists>k. randomIndex (?g !! Suc k) (length (nounsOf ?st)) = i"
    unfolding len
  proof (intro allI impI)
    fix i :: nat
    assume "i < 2"
    then have "i = 0 \<or> i = 1" by auto
    then show "\<exists>k. randomIndex (?g !! Suc k) 2 = i"
      using i0 i1 by blast
  qed
  have same: "\<forall>a\<in>set (nounsOf (sentenceState homophoneDictionary)).
              \<forall>b\<in>set (nounsOf (sentenceState homophoneDictionary)). roman a = roman b"
    by (simp add: nounsOf_def sentenceState_def homophoneDictionary_def js_def)
  from generateSentence_terminates [OF example_vocabulary(1) example_vocabulary(2), of ?g]
    two fair
  have a: "\<exists>res. generateSentence ?st ?g = Some res"
    by blast
  from generateSentence_terminates [OF example_vocabulary(3) example_vocabulary(4), of ?g] same
  have b: "generateSentence (sentenceState homophoneDictionary) ?g = None"
    by blast
  from a b show ?thesis by simp
qed

end
